theory Spec2Isabelle
  imports Complex_Main "HOL-Library.Sublist"
begin

section \<open>Python strings\<close>

text \<open>
  Text is a list of characters with code points below 256.  The built-in string
  operations the agents rely on are written out: \<open>str.lower\<close>, \<open>str.split\<close> with and
  without a separator, \<open>str.strip\<close>, the substring test \<open>needle in hay\<close> and \<open>int(str)\<close>.
\<close>

definition py_lower_char :: "char \<Rightarrow> char" where
  "py_lower_char c =
     (let n = (of_char c :: nat)
      in if (65 \<le> n \<and> n \<le> 90) \<or> (192 \<le> n \<and> n \<le> 222 \<and> n \<noteq> 215)
         then char_of (n + 32) else c)"

definition py_lower :: "string \<Rightarrow> string" where
  "py_lower s = map py_lower_char s"

text \<open>The whitespace characters: code points 9 to 13, 28 to 32, 133 and 160.\<close>

definition py_isspace :: "char \<Rightarrow> bool" where
  "py_isspace c =
     (c \<in> set [CHR 0x09, CHR 0x0A, CHR 0x0B, CHR 0x0C, CHR 0x0D, CHR 0x1C, CHR 0x1D,
                CHR 0x1E, CHR 0x1F, CHR 0x20, CHR 0x85, CHR 0xA0])"

text \<open>\<open>s.split()\<close>: the maximal runs of non-whitespace characters, in order.\<close>

fun py_split_acc :: "string \<Rightarrow> string \<Rightarrow> string list" where
  "py_split_acc cur [] = (if cur = [] then [] else [cur])"
| "py_split_acc cur (c # cs) =
     (if py_isspace c
      then (if cur = [] then py_split_acc [] cs else cur # py_split_acc [] cs)
      else py_split_acc (cur @ [c]) cs)"

definition py_split :: "string \<Rightarrow> string list" where
  "py_split s = py_split_acc [] s"

text \<open>\<open>s.split(sep)\<close> for a one-character separator: empty pieces are kept.\<close>

fun py_split_on_acc :: "char \<Rightarrow> string \<Rightarrow> string \<Rightarrow> string list" where
  "py_split_on_acc sep cur [] = [cur]"
| "py_split_on_acc sep cur (c # cs) =
     (if c = sep then cur # py_split_on_acc sep [] cs
      else py_split_on_acc sep (cur @ [c]) cs)"

definition py_split_on :: "char \<Rightarrow> string \<Rightarrow> string list" where
  "py_split_on sep s = py_split_on_acc sep [] s"

definition py_strip :: "string \<Rightarrow> string" where
  "py_strip s = rev (dropWhile py_isspace (rev (dropWhile py_isspace s)))"

text \<open>\<open>needle in hay\<close>: some suffix of \<open>hay\<close> starts with \<open>needle\<close>.\<close>

fun py_startswith :: "string \<Rightarrow> string \<Rightarrow> bool" where
  "py_startswith hay [] = True"
| "py_startswith [] (n # ns) = False"
| "py_startswith (h # hs) (n # ns) = (h = n \<and> py_startswith hs ns)"

fun py_in :: "string \<Rightarrow> string \<Rightarrow> bool" where
  "py_in needle [] = (needle = [])"
| "py_in needle (h # hs) = (py_startswith (h # hs) needle \<or> py_in needle hs)"

text \<open>The truth value of an optional string: \<open>None\<close> and the empty string are false.\<close>

fun str_truthy :: "string option \<Rightarrow> bool" where
  "str_truthy None = False"
| "str_truthy (Some s) = (s \<noteq> [])"

text \<open>\<open>str(n)\<close> for an integer.\<close>

fun digits_of :: "nat \<Rightarrow> string" where
  "digits_of n =
     (if n < 10 then [char_of (48 + n)] else digits_of (n div 10) @ [char_of (48 + n mod 10)])"

definition py_str_int :: "int \<Rightarrow> string" where
  "py_str_int i = (if i < 0 then CHR ''-'' # digits_of (nat (- i)) else digits_of (nat i))"

text \<open>
  \<open>int(s)\<close> for a string.  The whitespace it drops at both ends is narrower than that of
  \<open>str.strip\<close>: code points 9 to 13, 32, 133 and 160 only.  One sign may follow; then
  the digits are scanned up to the first character that is neither a digit nor an
  underscore, an underscore being allowed only between two digits.  A scanned run of more
  than 4300 digits is refused; otherwise nothing may follow the run.  Every failure is a
  \<open>ValueError\<close>, given here by its message (the literal itself left out).
\<close>

definition py_int_isspace :: "char \<Rightarrow> bool" where
  "py_int_isspace c =
     (c \<in> set [CHR 0x09, CHR 0x0A, CHR 0x0B, CHR 0x0C, CHR 0x0D, CHR 0x20, CHR 0x85,
                CHR 0xA0])"

definition py_int_strip :: "string \<Rightarrow> string" where
  "py_int_strip s = rev (dropWhile py_int_isspace (rev (dropWhile py_int_isspace s)))"

definition py_isdigit :: "char \<Rightarrow> bool" where
  "py_isdigit c = (48 \<le> (of_char c :: nat) \<and> (of_char c :: nat) \<le> 57)"

text \<open>
  The scan: the value and the number of the digits read, and what is left, or \<open>None\<close>
  for a misplaced underscore or an empty run.
\<close>

fun py_int_scan :: "bool \<Rightarrow> nat \<Rightarrow> nat \<Rightarrow> string \<Rightarrow> (nat \<times> nat \<times> string) option" where
  "py_int_scan after_digit acc n [] = (if after_digit then Some (acc, n, []) else None)"
| "py_int_scan after_digit acc n (c # cs) =
     (if py_isdigit c then py_int_scan True (acc * 10 + (of_char c - 48)) (Suc n) cs
      else if c = CHR ''_'' then (if after_digit then py_int_scan False acc n cs else None)
      else if after_digit then Some (acc, n, c # cs)
      else None)"

definition int_max_str_digits :: nat where
  "int_max_str_digits = 4300"

definition py_int_str :: "string \<Rightarrow> string + int" where
  "py_int_str s =
     (case py_int_strip s of
        [] \<Rightarrow> Inl ''invalid literal for int()''
      | c # cs \<Rightarrow>
          (let negative = (c = CHR ''-'');
               body = (if c = CHR ''-'' \<or> c = CHR ''+'' then cs else c # cs)
           in case py_int_scan False 0 0 body of
                None \<Rightarrow> Inl ''invalid literal for int()''
              | Some (acc, n, rest) \<Rightarrow>
                  if n > int_max_str_digits
                  then Inl ''Exceeds the limit (4300 digits) for integer string conversion''
                  else if rest \<noteq> [] then Inl ''invalid literal for int()''
                  else Inr (if negative then - int acc else int acc)))"

section \<open>Python values, dictionaries and errors\<close>

text \<open>
  The values the dictionaries of the program hold: \<open>None\<close>, Booleans, integers, floats
  (as the real number they denote), strings, instants and lists.
\<close>

datatype pyval =
  PNone | PBool bool | PInt int | PFloat real | PStr string | PDatetime int | PList "pyval list"

type_synonym pydict = "string \<rightharpoonup> pyval"

text \<open>
  Exceptions, by class; \<open>HTTPException\<close> carries its status code and detail.
  \<open>ExpiredSignatureError\<close> and \<open>JWTClaimsError\<close> are subclasses of \<open>JWTError\<close>.
\<close>

datatype error =
    ValueError string
  | KeyError string
  | NameError string
  | TypeError
  | MultipleResultsFound
  | DBAPIError
  | RuntimeError
  | JWTError
  | ExpiredSignatureError
  | JWTClaimsError
  | HTTPException nat string

text \<open>The truth value of a Python value, as \<open>if v:\<close> and \<open>not v\<close> read it.\<close>

fun truthy :: "pyval \<Rightarrow> bool" where
  "truthy PNone = False"
| "truthy (PBool b) = b"
| "truthy (PInt i) = (i \<noteq> 0)"
| "truthy (PFloat x) = (x \<noteq> 0)"
| "truthy (PStr s) = (s \<noteq> [])"
| "truthy (PDatetime t) = True"
| "truthy (PList vs) = (vs \<noteq> [])"

text \<open>\<open>d[k]\<close> raises \<open>KeyError\<close> on a missing key; \<open>d.get(k)\<close> gives \<open>None\<close>.\<close>

definition dict_item :: "pydict \<Rightarrow> string \<Rightarrow> error + pyval" where
  "dict_item d k = (case d k of None \<Rightarrow> Inl (KeyError k) | Some v \<Rightarrow> Inr v)"

definition dict_get :: "pydict \<Rightarrow> string \<Rightarrow> pyval" where
  "dict_get d k = (case d k of None \<Rightarrow> PNone | Some v \<Rightarrow> v)"

text \<open>
  \<open>int(v)\<close>: an integer is itself, a Boolean is 0 or 1, a float is truncated towards
  zero, a string is parsed, and \<open>None\<close>, an instant or a list is a \<open>TypeError\<close>.
\<close>

fun py_int :: "pyval \<Rightarrow> error + int" where
  "py_int (PInt i) = Inr i"
| "py_int (PBool b) = Inr (if b then 1 else 0)"
| "py_int (PFloat x) = Inr (if x < 0 then - \<lfloor>- x\<rfloor> else \<lfloor>x\<rfloor>)"
| "py_int (PStr s) =
     (case py_int_str s of Inl message \<Rightarrow> Inl (ValueError message) | Inr i \<Rightarrow> Inr i)"
| "py_int (PDatetime t) = Inl TypeError"
| "py_int PNone = Inl TypeError"
| "py_int (PList vs) = Inl TypeError"

section \<open>Enumerations of the data model\<close>

datatype ScanStatus =
  ORDERED | VALIDATED | SCHEDULED | IN_PREP | IN_PROGRESS | COMPLETED | REPORTED | CANCELLED

fun ScanStatus_value :: "ScanStatus \<Rightarrow> string" where
  "ScanStatus_value ORDERED = ''ordered''"
| "ScanStatus_value VALIDATED = ''validated''"
| "ScanStatus_value SCHEDULED = ''scheduled''"
| "ScanStatus_value IN_PREP = ''in_prep''"
| "ScanStatus_value IN_PROGRESS = ''in_progress''"
| "ScanStatus_value COMPLETED = ''completed''"
| "ScanStatus_value REPORTED = ''reported''"
| "ScanStatus_value CANCELLED = ''cancelled''"

datatype UrgencyLevel = IMMEDIATE | URGENT | ROUTINE

fun UrgencyLevel_value :: "UrgencyLevel \<Rightarrow> string" where
  "UrgencyLevel_value IMMEDIATE = ''immediate''"
| "UrgencyLevel_value URGENT = ''urgent''"
| "UrgencyLevel_value ROUTINE = ''routine''"

datatype AppropriatenessScore = VERY_HIGH | HIGH | MODERATE | LOW | VERY_LOW

fun AppropriatenessScore_value :: "AppropriatenessScore \<Rightarrow> string" where
  "AppropriatenessScore_value VERY_HIGH = ''very_high''"
| "AppropriatenessScore_value HIGH = ''high''"
| "AppropriatenessScore_value MODERATE = ''moderate''"
| "AppropriatenessScore_value LOW = ''low''"
| "AppropriatenessScore_value VERY_LOW = ''very_low''"

datatype CTContrast = NONE | WITH_CONTRAST | WITHOUT_CONTRAST

fun CTContrast_value :: "CTContrast \<Rightarrow> string" where
  "CTContrast_value NONE = ''none''"
| "CTContrast_value WITH_CONTRAST = ''with_contrast''"
| "CTContrast_value WITHOUT_CONTRAST = ''without_contrast''"

text \<open>
  Calling an enumeration class on a value looks the member up by value and raises
  \<open>ValueError\<close> when there is none.
\<close>

definition UrgencyLevel_of :: "pyval \<Rightarrow> error + UrgencyLevel" where
  "UrgencyLevel_of v =
     (case find (\<lambda>m. PStr (UrgencyLevel_value m) = v) [IMMEDIATE, URGENT, ROUTINE] of
        None \<Rightarrow> Inl (ValueError ''not a valid UrgencyLevel'')
      | Some m \<Rightarrow> Inr m)"

definition AppropriatenessScore_of :: "pyval \<Rightarrow> error + AppropriatenessScore" where
  "AppropriatenessScore_of v =
     (case find (\<lambda>m. PStr (AppropriatenessScore_value m) = v)
             [VERY_HIGH, HIGH, MODERATE, LOW, VERY_LOW] of
        None \<Rightarrow> Inl (ValueError ''not a valid AppropriatenessScore'')
      | Some m \<Rightarrow> Inr m)"


section \<open>Clinical agent\<close>

definition APPROPRIATENESS_CRITERIA :: "(string \<times> int) list" where
  "APPROPRIATENESS_CRITERIA =
     [(''head trauma, mild with loss of consciousness'', 8),
      (''head trauma, mild without loss of consciousness'', 4),
      (''head trauma, moderate to severe'', 9),
      (''acute stroke symptoms'', 9),
      (''altered mental status'', 7),
      (''headache with focal neurological findings'', 8),
      (''headache without focal findings'', 2),
      (''seizure with focal features'', 8),
      (''seizure without focal features'', 3),
      (''suspected brain tumor'', 7),
      (''dizziness/vertigo'', 3),
      (''syncope'', 4),
      (''cognitive decline'', 6)]"

definition immediate_indicators :: "string list" where
  "immediate_indicators =
     [''stroke'', ''hemorrhage'', ''bleeding'', ''seizure'', ''unconscious'', ''coma'',
      ''focal deficit'', ''mass effect'', ''herniation'']"

definition urgent_indicators :: "string list" where
  "urgent_indicators =
     [''trauma'', ''head injury'', ''confusion'', ''altered'', ''persistent headache'',
      ''vomiting'', ''papilledema'']"

definition determine_urgency :: "string \<Rightarrow> UrgencyLevel" where
  "determine_urgency text =
     (if list_ex (\<lambda>indicator. py_in indicator text) immediate_indicators then IMMEDIATE
      else if list_ex (\<lambda>indicator. py_in indicator text) urgent_indicators then URGENT
      else ROUTINE)"

text \<open>
  One criterion of \<open>_calculate_appropriateness\<close>: both phrases are split into sets of
  words (lists without duplicates), and the criterion matches when the overlap has at
  least \<open>min(2, len(criteria_words))\<close> elements.
\<close>

definition criteria_matches :: "string \<Rightarrow> string \<Rightarrow> bool" where
  "criteria_matches criteria text =
     (let criteria_words = remdups (py_split criteria);
          text_words = remdups (py_split text);
          overlap = filter (\<lambda>w. w \<in> set text_words) criteria_words
      in int (length overlap) \<ge> min 2 (int (length criteria_words)))"

text \<open>The loop over the criteria table, carrying the best score and its reason.\<close>

fun appropriateness_loop :: "(string \<times> int) list \<Rightarrow> string \<Rightarrow> int \<times> string \<Rightarrow> int \<times> string" where
  "appropriateness_loop [] text best = best"
| "appropriateness_loop ((criteria, score) # rest) text (best_match_score, best_match_reason) =
     (if criteria_matches criteria text
      then (if score > best_match_score
            then appropriateness_loop rest text (score, ''Matched criteria: '' @ criteria)
            else appropriateness_loop rest text (best_match_score, best_match_reason))
      else appropriateness_loop rest text (best_match_score, best_match_reason))"

definition calculate_appropriateness :: "string \<Rightarrow> AppropriatenessScore \<times> string" where
  "calculate_appropriateness text =
     (case appropriateness_loop APPROPRIATENESS_CRITERIA text (0, ''No specific criteria matched'') of
        (best_match_score, best_match_reason) \<Rightarrow>
          let appropriateness =
                (if best_match_score \<ge> 7 then VERY_HIGH
                 else if best_match_score \<ge> 6 then HIGH
                 else if best_match_score \<ge> 4 then MODERATE
                 else if best_match_score \<ge> 2 then LOW
                 else VERY_LOW)
          in (appropriateness,
              ''Score: '' @ py_str_int best_match_score @ ''/9 - '' @ best_match_reason))"

fun get_urgency_reason :: "UrgencyLevel \<Rightarrow> string" where
  "get_urgency_reason IMMEDIATE =
     ''Clinical findings suggest potentially life-threatening condition requiring immediate imaging.''"
| "get_urgency_reason URGENT =
     ''Clinical findings suggest condition requiring imaging within 1 hour.''"
| "get_urgency_reason ROUTINE =
     ''Clinical findings suggest routine imaging is appropriate. Scan can be scheduled within 24 hours.''"

definition generate_recommendations ::
  "UrgencyLevel \<Rightarrow> AppropriatenessScore \<Rightarrow> string \<Rightarrow> string list" where
  "generate_recommendations urgency_level appropriateness text =
     (if urgency_level = IMMEDIATE
      then [''Order scan as STAT - immediate priority'',
            ''Notify radiology immediately'',
            ''Consider pre-notification for potential thrombolysis'',
            ''Ensure IV access for potential contrast'']
      else if urgency_level = URGENT
      then [''Order scan as urgent - within 1 hour'',
            ''Notify radiology of urgent priority'',
            ''Prepare patient for scan'']
      else [''Order scan as routine'',
            ''Schedule based on scanner availability''])
     @ (if appropriateness \<in> set [LOW, VERY_LOW]
        then [''Consider clinical consultation before proceeding'',
              ''CT may have limited diagnostic value for this indication'',
              ''Alternative imaging (MRI) may be more appropriate'']
        else [])
     @ (if py_in ''stroke'' text
        then [''NIH Stroke Scale assessment required'',
              ''Determine last known well time'',
              ''Check eligibility for thrombolysis'']
        else [])
     @ (if py_in ''trauma'' text
        then [''Assess for other injuries'',
              ''Consider C-spine clearance'',
              ''Monitor Glasgow Coma Scale'']
        else [])
     @ (if py_in ''seizure'' text
        then [''Check anticonvulsant levels if applicable'',
              ''Consider EEG if indicated'',
              ''Assess for status epilepticus'']
        else [])"

text \<open>
  The text handed to the scoring functions by \<open>analyze_ct_indication\<close>: the three inputs
  lower-cased (an absent or empty history or symptom text counts as empty) and joined
  by single spaces.
\<close>

definition combined_text :: "string \<Rightarrow> string option \<Rightarrow> string option \<Rightarrow> string" where
  "combined_text ct_indication clinical_history symptoms =
     (let indication_lower = py_lower ct_indication;
          history_lower = (if str_truthy clinical_history then py_lower (the clinical_history) else []);
          symptoms_lower = (if str_truthy symptoms then py_lower (the symptoms) else [])
      in indication_lower @ '' '' @ history_lower @ '' '' @ symptoms_lower)"

definition analyze_ct_indication :: "string \<Rightarrow> string option \<Rightarrow> string option \<Rightarrow> pydict" where
  "analyze_ct_indication ct_indication clinical_history symptoms =
     (let text = combined_text ct_indication clinical_history symptoms;
          urgency_level = determine_urgency text
      in case calculate_appropriateness text of
           (appropriateness_score, appropriateness_reason) \<Rightarrow>
             let recommendations = generate_recommendations urgency_level appropriateness_score text
             in map_of
                  [(''urgency_level'', PStr (UrgencyLevel_value urgency_level)),
                   (''urgency_reason'', PStr (get_urgency_reason urgency_level)),
                   (''appropriateness_score'', PStr (AppropriatenessScore_value appropriateness_score)),
                   (''appropriateness_reason'', PStr appropriateness_reason),
                   (''recommendations'', PList (map PStr recommendations)),
                   (''requires_radiologist_review'', PBool (urgency_level = IMMEDIATE))])"

definition interpretations :: "(int \<times> string) list" where
  "interpretations =
     [(15, ''Normal consciousness''),
      (13, ''Minor brain injury''),
      (9, ''Moderate brain injury''),
      (8, ''Severe brain injury (coma)'')]"

text \<open>The loop of \<open>_interpret_gcs\<close> over the keys in descending order.\<close>

fun interpret_loop :: "int list \<Rightarrow> int \<Rightarrow> string" where
  "interpret_loop [] score = ''Critical - immediate intervention required''"
| "interpret_loop (key # keys) score =
     (if score \<ge> key then the (map_of interpretations key) else interpret_loop keys score)"

definition interpret_gcs :: "int \<Rightarrow> string" where
  "interpret_gcs score = interpret_loop (rev (sort (map fst interpretations))) score"

definition calculate_gcs_score :: "int \<Rightarrow> int \<Rightarrow> int \<Rightarrow> pydict" where
  "calculate_gcs_score eye_response verbal_response motor_response =
     (let total_score = eye_response + verbal_response + motor_response;
          severity = (if total_score \<ge> 13 then ''mild''
                      else if total_score \<ge> 9 then ''moderate''
                      else ''severe'')
      in map_of
           [(''total_score'', PInt total_score),
            (''eye'', PInt eye_response),
            (''verbal'', PInt verbal_response),
            (''motor'', PInt motor_response),
            (''severity'', PStr severity),
            (''interpretation'', PStr (interpret_gcs total_score))])"


section \<open>Persisted entities\<close>

text \<open>
  An instant (\<open>datetime\<close>) is a count of microseconds; a day has \<open>86400000000\<close> of them
  and starts at a multiple of that.  The range limits of \<open>datetime\<close> are left out.
  A column with no default is optional; a column with a default holds a value.
\<close>

type_synonym datetime = int

datatype ScannerStatus = AVAILABLE | IN_USE | MAINTENANCE | OUT_OF_SERVICE

datatype ScannerType = STANDARD | ADVANCED | DUAL_SOURCE

fun ScannerType_value :: "ScannerType \<Rightarrow> string" where
  "ScannerType_value STANDARD = ''standard''"
| "ScannerType_value ADVANCED = ''advanced''"
| "ScannerType_value DUAL_SOURCE = ''dual_source''"

datatype Gender = MALE | FEMALE | OTHER

datatype PatientStatus =
  P_REGISTERED | P_WAITING | P_IN_PREP | P_IN_SCAN | P_POST_SCAN | P_COMPLETED | P_CANCELLED

datatype AnxietyLevel = A_NONE | A_MILD | A_MODERATE | A_SEVERE

fun AnxietyLevel_value :: "AnxietyLevel \<Rightarrow> string" where
  "AnxietyLevel_value A_NONE = ''none''"
| "AnxietyLevel_value A_MILD = ''mild''"
| "AnxietyLevel_value A_MODERATE = ''moderate''"
| "AnxietyLevel_value A_SEVERE = ''severe''"

record CTScan =
  CTScan_id :: string
  CTScan_scan_number :: string
  CTScan_patient_id :: string
  CTScan_ordering_physician_id :: "string option"
  CTScan_radiology_technician_id :: "string option"
  CTScan_radiologist_id :: "string option"
  CTScan_scanner_id :: "string option"
  CTScan_ct_indication :: string
  CTScan_clinical_history :: "string option"
  CTScan_symptoms :: "string option"
  CTScan_onset_time :: "datetime option"
  CTScan_gcs_score :: "int option"
  CTScan_neurological_findings :: "string option"
  CTScan_urgency_level :: UrgencyLevel
  CTScan_appropriateness_score :: "AppropriatenessScore option"
  CTScan_appropriateness_reason :: "string option"
  CTScan_contrast :: CTContrast
  CTScan_ai_preliminary_findings :: "string option"
  CTScan_ai_motion_artifact :: bool
  CTScan_ai_quality_score :: "real option"
  CTScan_status :: ScanStatus
  CTScan_scheduled_time :: "datetime option"
  CTScan_started_time :: "datetime option"
  CTScan_completed_time :: "datetime option"
  CTScan_reported_time :: "datetime option"
  CTScan_preliminary_report :: "string option"
  CTScan_final_report :: "string option"
  CTScan_critical_findings :: bool
  CTScan_critical_findings_notification :: bool
  CTScan_transport_requested :: bool
  CTScan_transport_eta :: "datetime option"
  CTScan_transport_team :: "string option"
  CTScan_ordered_at :: datetime
  CTScan_created_at :: datetime
  CTScan_updated_at :: datetime

record Scanner =
  Scanner_id :: string
  Scanner_scanner_code :: string
  Scanner_name :: string
  Scanner_location :: "string option"
  Scanner_scanner_type :: ScannerType
  Scanner_slice_count :: "int option"
  Scanner_manufacturer :: "string option"
  Scanner_model :: "string option"
  Scanner_serial_number :: "string option"
  Scanner_status :: ScannerStatus
  Scanner_is_active :: bool
  Scanner_operational_hours_start :: string
  Scanner_operational_hours_end :: string
  Scanner_avg_scan_duration_minutes :: int
  Scanner_daily_capacity :: int
  Scanner_today_scans_completed :: int
  Scanner_today_scans_scheduled :: int
  Scanner_current_utilization :: real
  Scanner_last_maintenance :: "datetime option"
  Scanner_next_maintenance :: "datetime option"
  Scanner_maintenance_notes :: "string option"
  Scanner_created_at :: datetime
  Scanner_updated_at :: datetime

record Patient =
  Patient_id :: string
  Patient_mrn :: string
  Patient_name :: string
  Patient_ic_number :: "string option"
  Patient_date_of_birth :: datetime
  Patient_gender :: Gender
  Patient_phone :: "string option"
  Patient_email :: "string option"
  Patient_address :: "string option"
  Patient_ed_visit_id :: "string option"
  Patient_ward :: "string option"
  Patient_bed_number :: "string option"
  Patient_chief_complaint :: "string option"
  Patient_clinical_notes :: "string option"
  Patient_allergies :: "string option"
  Patient_status :: PatientStatus
  Patient_anxiety_level :: AnxietyLevel
  Patient_consent_given :: bool
  Patient_consent_timestamp :: "datetime option"
  Patient_digital_consent_form :: "string option"
  Patient_registered_at :: datetime
  Patient_updated_at :: datetime

record FAQ =
  FAQ_id :: string
  FAQ_question :: string
  FAQ_answer :: string
  FAQ_category :: "string option"
  FAQ_keywords :: "string option"
  FAQ_language :: string
  FAQ_embedding :: "string option"
  FAQ_view_count :: int
  FAQ_helpful_count :: int
  FAQ_not_helpful_count :: int
  FAQ_is_active :: bool
  FAQ_created_at :: datetime
  FAQ_updated_at :: datetime

text \<open>
  The database the session reads and commits to: one list of rows per table, in storage
  order.  A committed change to a loaded row rewrites the rows carrying its primary key.
\<close>

record database =
  db_ct_scans :: "CTScan list"
  db_scanners :: "Scanner list"
  db_patients :: "Patient list"
  db_faqs :: "FAQ list"

text \<open>\<open>Result.scalar_one_or_none\<close>: no row, the one row, or \<open>MultipleResultsFound\<close>.\<close>

definition scalar_one_or_none :: "'a list \<Rightarrow> error + 'a option" where
  "scalar_one_or_none rows =
     (case rows of [] \<Rightarrow> Inr None | [r] \<Rightarrow> Inr (Some r) | _ \<Rightarrow> Inl MultipleResultsFound)"


text \<open>
  What a commit writes for a loaded row: nothing when no attribute changed; otherwise the
  new attribute values, with \<open>updated_at\<close> stamped by its \<open>onupdate\<close> clock reading
  unless the code assigned a new \<open>updated_at\<close> itself.
\<close>

definition flush_CTScan :: "datetime \<Rightarrow> CTScan \<Rightarrow> CTScan \<Rightarrow> CTScan" where
  "flush_CTScan commit_time old new =
     (if new = old then old
      else if CTScan_updated_at new \<noteq> CTScan_updated_at old then new
      else new\<lparr>CTScan_updated_at := commit_time\<rparr>)"

definition flush_Scanner :: "datetime \<Rightarrow> Scanner \<Rightarrow> Scanner \<Rightarrow> Scanner" where
  "flush_Scanner commit_time old new =
     (if new = old then old
      else if Scanner_updated_at new \<noteq> Scanner_updated_at old then new
      else new\<lparr>Scanner_updated_at := commit_time\<rparr>)"

definition flush_Patient :: "datetime \<Rightarrow> Patient \<Rightarrow> Patient \<Rightarrow> Patient" where
  "flush_Patient commit_time old new =
     (if new = old then old
      else if Patient_updated_at new \<noteq> Patient_updated_at old then new
      else new\<lparr>Patient_updated_at := commit_time\<rparr>)"

definition flush_FAQ :: "datetime \<Rightarrow> FAQ \<Rightarrow> FAQ \<Rightarrow> FAQ" where
  "flush_FAQ commit_time old new =
     (if new = old then old
      else if FAQ_updated_at new \<noteq> FAQ_updated_at old then new
      else new\<lparr>FAQ_updated_at := commit_time\<rparr>)"

definition commit_CTScan :: "database \<Rightarrow> datetime \<Rightarrow> CTScan \<Rightarrow> CTScan \<Rightarrow> database" where
  "commit_CTScan db commit_time old new =
     db\<lparr>db_ct_scans :=
          map (\<lambda>r. if CTScan_id r = CTScan_id old then flush_CTScan commit_time old new else r)
              (db_ct_scans db)\<rparr>"

definition commit_Scanner :: "database \<Rightarrow> datetime \<Rightarrow> Scanner \<Rightarrow> Scanner \<Rightarrow> database" where
  "commit_Scanner db commit_time old new =
     db\<lparr>db_scanners :=
          map (\<lambda>r. if Scanner_id r = Scanner_id old then flush_Scanner commit_time old new else r)
              (db_scanners db)\<rparr>"

definition commit_Patient :: "database \<Rightarrow> datetime \<Rightarrow> Patient \<Rightarrow> Patient \<Rightarrow> database" where
  "commit_Patient db commit_time old new =
     db\<lparr>db_patients :=
          map (\<lambda>r. if Patient_id r = Patient_id old then flush_Patient commit_time old new else r)
              (db_patients db)\<rparr>"

definition commit_FAQ :: "database \<Rightarrow> datetime \<Rightarrow> FAQ \<Rightarrow> FAQ \<Rightarrow> database" where
  "commit_FAQ db commit_time old new =
     db\<lparr>db_faqs :=
          map (\<lambda>r. if FAQ_id r = FAQ_id old then flush_FAQ commit_time old new else r)
              (db_faqs db)\<rparr>"

text \<open>Optional column values as Python values.\<close>

fun opt_str :: "string option \<Rightarrow> pyval" where
  "opt_str None = PNone"
| "opt_str (Some s) = PStr s"

fun opt_int :: "int option \<Rightarrow> pyval" where
  "opt_int None = PNone"
| "opt_int (Some i) = PInt i"

text \<open>A value assigned to a text column: a string or \<open>None\<close>; the driver rejects the rest.\<close>

fun text_column :: "pyval \<Rightarrow> error + string option" where
  "text_column PNone = Inr None"
| "text_column (PStr s) = Inr (Some s)"
| "text_column v = Inl DBAPIError"

subsection \<open>Clinical agent: applying an analysis to a scan\<close>

text \<open>
  The names bound where \<open>update_scan_with_analysis\<close> runs: its parameters and local
  variables, and the names the module \<open>clinical_agent\<close> binds (its imports and its
  class).  Reading any other name that is not a built-in raises \<open>NameError\<close>.
\<close>

definition update_scan_with_analysis_locals :: "string list" where
  "update_scan_with_analysis_locals =
     [''self'', ''scan_id'', ''analysis_result'', ''result'', ''scan'']"

definition clinical_agent_globals :: "string list" where
  "clinical_agent_globals =
     [''Optional'', ''Dict'', ''Any'', ''List'', ''datetime'', ''json'', ''AsyncSession'',
      ''select'', ''CTScan'', ''UrgencyLevel'', ''AppropriatenessScore'', ''Patient'',
      ''ClinicalAgent'', ''desc'', ''ScanStatus'']"

definition resolve_name :: "string list \<Rightarrow> string \<Rightarrow> error + unit" where
  "resolve_name scope name = (if name \<in> set scope then Inr () else Inl (NameError name))"

definition update_scan_with_analysis ::
  "database \<Rightarrow> datetime \<Rightarrow> string \<Rightarrow> pydict \<Rightarrow> (error + pydict) \<times> database" where
  "update_scan_with_analysis db commit_time scan_id analysis_result =
     (case scalar_one_or_none (filter (\<lambda>r. CTScan_id r = scan_id) (db_ct_scans db)) of
        Inl e \<Rightarrow> (Inl e, db)
      | Inr None \<Rightarrow> (Inl (ValueError ''CT scan not found''), db)
      | Inr (Some scan) \<Rightarrow>
          (case dict_item analysis_result ''urgency_level'' of
             Inl e \<Rightarrow> (Inl e, db)
           | Inr v1 \<Rightarrow>
          (case UrgencyLevel_of v1 of
             Inl e \<Rightarrow> (Inl e, db)
           | Inr urgency \<Rightarrow>
          (case dict_item analysis_result ''appropriateness_score'' of
             Inl e \<Rightarrow> (Inl e, db)
           | Inr v2 \<Rightarrow>
          (case AppropriatenessScore_of v2 of
             Inl e \<Rightarrow> (Inl e, db)
           | Inr appropriateness \<Rightarrow>
          (case dict_item analysis_result ''appropriateness_reason'' of
             Inl e \<Rightarrow> (Inl e, db)
           | Inr v3 \<Rightarrow>
          (let status' = (if ScanStatus_value (CTScan_status scan) = ''ordered''
                          then VALIDATED else CTScan_status scan)
           in case text_column v3 of
                Inl e \<Rightarrow> (Inl e, db)
              | Inr reason \<Rightarrow>
                  (let scan' = scan\<lparr>CTScan_urgency_level := urgency,
                                      CTScan_appropriateness_score := Some appropriateness,
                                      CTScan_appropriateness_reason := reason,
                                      CTScan_status := status'\<rparr>;
                       db' = commit_CTScan db commit_time scan scan'
                   in case resolve_name
                             (update_scan_with_analysis_locals @ clinical_agent_globals) ''db'' of
                        Inl e \<Rightarrow> (Inl e, db')
                      | Inr u \<Rightarrow>
                          (let refreshed = flush_CTScan commit_time scan scan'
                           in (Inr (map_of
                                 [(''scan_id'', PStr (CTScan_id refreshed)),
                                  (''urgency_level'',
                                     PStr (UrgencyLevel_value (CTScan_urgency_level refreshed))),
                                  (''appropriateness_score'',
                                     PStr (AppropriatenessScore_value appropriateness)),
                                  (''status'',
                                     PStr (ScanStatus_value (CTScan_status refreshed)))]),
                               db'))))))))))"


section \<open>Resource agent\<close>

definition us_per_day :: int where
  "us_per_day = 86400000000"

text \<open>\<open>now.replace(hour=h, minute=m, second=0)\<close> keeps the date and the microseconds.\<close>

definition replace_hour_minute :: "datetime \<Rightarrow> int \<Rightarrow> int \<Rightarrow> error + datetime" where
  "replace_hour_minute now h m =
     (if h < 0 \<or> h > 23 then Inl (ValueError ''hour must be in 0..23'')
      else if m < 0 \<or> m > 59 then Inl (ValueError ''minute must be in 0..59'')
      else Inr (now - now mod us_per_day + (h * 60 + m) * 60 * 1000000 + now mod 1000000))"

definition add_minutes :: "datetime \<Rightarrow> int \<Rightarrow> datetime" where
  "add_minutes t minutes = t + minutes * 60000000"

text \<open>
  \<open>a, b = map(int, s.split(":"))\<close>: the pieces are converted one by one as the
  unpacking asks for them, so a bad piece is reported before a wrong count.
\<close>

definition int_of_piece :: "string \<Rightarrow> error + int" where
  "int_of_piece s =
     (case py_int_str s of Inl message \<Rightarrow> Inl (ValueError message) | Inr i \<Rightarrow> Inr i)"

definition parse_hour_minute :: "string \<Rightarrow> error + (int \<times> int)" where
  "parse_hour_minute s =
     (case py_split_on CHR '':'' s of
        [] \<Rightarrow> Inl (ValueError ''not enough values to unpack'')
      | a # rest \<Rightarrow>
          (case int_of_piece a of
             Inl e \<Rightarrow> Inl e
           | Inr h \<Rightarrow>
               (case rest of
                  [] \<Rightarrow> Inl (ValueError ''not enough values to unpack'')
                | b # rest' \<Rightarrow>
                    (case int_of_piece b of
                       Inl e \<Rightarrow> Inl e
                     | Inr m \<Rightarrow>
                         (case rest' of
                            [] \<Rightarrow> Inr (h, m)
                          | c # rest'' \<Rightarrow>
                              (case int_of_piece c of
                                 Inl e \<Rightarrow> Inl e
                               | Inr x \<Rightarrow> Inl (ValueError ''too many values to unpack'')))))))"

definition is_within_operational_hours :: "Scanner \<Rightarrow> int \<Rightarrow> datetime \<Rightarrow> error + bool" where
  "is_within_operational_hours scanner duration_minutes now =
     (case parse_hour_minute (Scanner_operational_hours_start scanner) of
        Inl e \<Rightarrow> Inl e
      | Inr (start_hour, start_min) \<Rightarrow>
     (case parse_hour_minute (Scanner_operational_hours_end scanner) of
        Inl e \<Rightarrow> Inl e
      | Inr (end_hour, end_min) \<Rightarrow>
     (case replace_hour_minute now start_hour start_min of
        Inl e \<Rightarrow> Inl e
      | Inr start_time \<Rightarrow>
     (case replace_hour_minute now end_hour end_min of
        Inl e \<Rightarrow> Inl e
      | Inr end_time \<Rightarrow>
          (let scan_end = add_minutes now duration_minutes
           in Inr (now \<ge> start_time \<and> scan_end \<le> end_time))))))"

definition scanner_to_dict :: "Scanner \<Rightarrow> pydict" where
  "scanner_to_dict scanner =
     map_of
       [(''id'', PStr (Scanner_id scanner)),
        (''scanner_code'', PStr (Scanner_scanner_code scanner)),
        (''name'', PStr (Scanner_name scanner)),
        (''location'', opt_str (Scanner_location scanner)),
        (''scanner_type'', PStr (ScannerType_value (Scanner_scanner_type scanner))),
        (''slice_count'', opt_int (Scanner_slice_count scanner)),
        (''avg_scan_duration_minutes'', PInt (Scanner_avg_scan_duration_minutes scanner)),
        (''daily_capacity'', PInt (Scanner_daily_capacity scanner)),
        (''today_scans_completed'', PInt (Scanner_today_scans_completed scanner)),
        (''today_scans_scheduled'', PInt (Scanner_today_scans_scheduled scanner)),
        (''current_utilization'', PFloat (Scanner_current_utilization scanner))]"

text \<open>The loop of \<open>find_available_scanner\<close> over the rows the query returned.\<close>

fun find_available_loop :: "Scanner list \<Rightarrow> int \<Rightarrow> datetime \<Rightarrow> error + pydict option" where
  "find_available_loop [] scan_duration_minutes now = Inr None"
| "find_available_loop (scanner # rest) scan_duration_minutes now =
     (if Scanner_today_scans_scheduled scanner < Scanner_daily_capacity scanner
      then (case is_within_operational_hours scanner scan_duration_minutes now of
              Inl e \<Rightarrow> Inl e
            | Inr fits \<Rightarrow>
                if fits then Inr (Some (scanner_to_dict scanner))
                else find_available_loop rest scan_duration_minutes now)
      else find_available_loop rest scan_duration_minutes now)"

definition find_available_scanner ::
  "database \<Rightarrow> datetime \<Rightarrow> int \<Rightarrow> ScannerType option \<Rightarrow> error + pydict option" where
  "find_available_scanner db now scan_duration_minutes preferred_type =
     (let query = filter (\<lambda>r. Scanner_status r = AVAILABLE \<and> Scanner_is_active r = True)
                         (db_scanners db);
          query' = (case preferred_type of
                      None \<Rightarrow> query
                    | Some t \<Rightarrow> filter (\<lambda>r. Scanner_scanner_type r = t) query)
      in find_available_loop query' scan_duration_minutes now)"

text \<open>
  \<open>schedule_scan\<close>.  \<open>isoformat\<close> is the standard rendering of an instant as text;
  \<open>now\<close> is the clock reading taken when no time is supplied.
\<close>

definition schedule_scan ::
  "(datetime \<Rightarrow> string) \<Rightarrow> database \<Rightarrow> datetime \<Rightarrow> datetime \<Rightarrow> string \<Rightarrow> string \<Rightarrow>
     datetime option \<Rightarrow> (error + pydict) \<times> database" where
  "schedule_scan isoformat db now commit_time scan_id scanner_id scheduled_time =
     (case scalar_one_or_none (filter (\<lambda>r. CTScan_id r = scan_id) (db_ct_scans db)) of
        Inl e \<Rightarrow> (Inl e, db)
      | Inr None \<Rightarrow> (Inl (ValueError ''CT scan not found''), db)
      | Inr (Some scan) \<Rightarrow>
     (case scalar_one_or_none (filter (\<lambda>r. Scanner_id r = scanner_id) (db_scanners db)) of
        Inl e \<Rightarrow> (Inl e, db)
      | Inr None \<Rightarrow> (Inl (ValueError ''Scanner not found''), db)
      | Inr (Some scanner) \<Rightarrow>
          if Scanner_status scanner \<noteq> AVAILABLE
          then (Inl (ValueError ''Scanner is not available''), db)
          else
            (let scheduled_time' = (case scheduled_time of
                                      None \<Rightarrow> add_minutes now 15
                                    | Some t \<Rightarrow> t);
                 scan' = scan\<lparr>CTScan_scanner_id := Some scanner_id,
                               CTScan_scheduled_time := Some scheduled_time',
                               CTScan_status := SCHEDULED\<rparr>;
                 scanner' = scanner\<lparr>Scanner_today_scans_scheduled :=
                                       Scanner_today_scans_scheduled scanner + 1\<rparr>;
                 db' = commit_Scanner (commit_CTScan db commit_time scan scan')
                         commit_time scanner scanner';
                 scan_r = flush_CTScan commit_time scan scan';
                 scanner_r = flush_Scanner commit_time scanner scanner'
             in (Inr (map_of
                   [(''scan_id'', PStr (CTScan_id scan_r)),
                    (''scanner_id'', PStr (Scanner_id scanner_r)),
                    (''scanner_code'', PStr (Scanner_scanner_code scanner_r)),
                    (''scheduled_time'', PStr (isoformat scheduled_time')),
                    (''estimated_duration_minutes'',
                       PInt (Scanner_avg_scan_duration_minutes scanner_r)),
                    (''estimated_completion'',
                       PStr (isoformat (add_minutes scheduled_time'
                                          (Scanner_avg_scan_duration_minutes scanner_r))))]),
                 db'))))"


section \<open>Patient agent\<close>

text \<open>
  The keywords of an FAQ as \<open>answer_faq\<close> reads them: none when the column is empty or
  absent, otherwise the comma-separated pieces, trimmed and lower-cased.
\<close>

definition faq_keywords :: "FAQ \<Rightarrow> string list" where
  "faq_keywords faq =
     (if str_truthy (FAQ_keywords faq)
      then map (\<lambda>k. py_lower (py_strip k)) (py_split_on CHR '','' (the (FAQ_keywords faq)))
      else [])"

text \<open>The loop collecting \<open>relevant_faqs\<close>.\<close>

fun relevant_loop :: "FAQ list \<Rightarrow> string \<Rightarrow> FAQ list" where
  "relevant_loop [] question_lower = []"
| "relevant_loop (faq # rest) question_lower =
     (if str_truthy (FAQ_keywords faq)
         \<and> list_ex (\<lambda>k. py_in k question_lower) (faq_keywords faq)
      then faq # relevant_loop rest question_lower
      else (let question_words = remdups (py_split question_lower);
                faq_words = remdups (py_split (py_lower (FAQ_question faq)))
            in if filter (\<lambda>w. w \<in> set faq_words) question_words \<noteq> []
               then faq # relevant_loop rest question_lower
               else relevant_loop rest question_lower))"

definition generate_faq_answer :: "string \<Rightarrow> string" where
  "generate_faq_answer question =
     ''I understand you have a question about your CT brain scan. ''
     @ ''Please contact our staff or speak with your healthcare provider ''
     @ ''for more specific information about your procedure.''"

definition answer_faq ::
  "database \<Rightarrow> datetime \<Rightarrow> string \<Rightarrow> string option \<Rightarrow> pydict \<times> database" where
  "answer_faq db commit_time question patient_id =
     (let active = filter (\<lambda>r. FAQ_is_active r = True) (db_faqs db);
          question_lower = py_lower question;
          relevant_faqs = relevant_loop active question_lower
      in case relevant_faqs of
           best_faq # others \<Rightarrow>
             (let best_faq' = best_faq\<lparr>FAQ_view_count := FAQ_view_count best_faq + 1\<rparr>
              in (map_of
                    [(''answer'', PStr (FAQ_answer best_faq')),
                     (''category'', opt_str (FAQ_category best_faq')),
                     (''faq_id'', PStr (FAQ_id best_faq')),
                     (''confidence'',
                        PStr (if length relevant_faqs = 1 then ''high'' else ''medium''))],
                  commit_FAQ db commit_time best_faq best_faq'))
         | [] \<Rightarrow>
             (map_of
                [(''answer'', PStr (generate_faq_answer question)),
                 (''category'', PStr ''general''),
                 (''faq_id'', PNone),
                 (''confidence'', PStr ''low'')],
              db))"

fun get_anxiety_recommendations :: "AnxietyLevel \<Rightarrow> string list" where
  "get_anxiety_recommendations A_NONE =
     [''Your CT scan is routine. Our staff will guide you through the process.'']"
| "get_anxiety_recommendations A_MILD =
     [''Consider listening to calming music during the scan.'',
      ''Let our staff know if you'' @ [CHR 39] @ ''d like any additional support.'']"
| "get_anxiety_recommendations A_MODERATE =
     [''We recommend our VR relaxation program before the scan.'',
      ''A staff member will stay with you throughout the procedure.'',
      ''Deep breathing exercises can help you relax.'']"
| "get_anxiety_recommendations A_SEVERE =
     [''Please speak with our care team about your concerns.'',
      ''We can arrange a pre-visit to familiarize you with the equipment.'',
      ''VR relaxation is strongly recommended before your scan.'',
      ''Sedation options may be available - please discuss with your doctor.'']"

text \<open>
  One of the three guarded additions of \<open>assess_anxiety\<close>:
  \<open>if responses.get(k): score += int(responses[k])\<close>.  The addition for "worrying"
  reads the value with \<open>responses.get(k, 0)\<close>, which is the same value, the key
  being present once the guard holds.
\<close>

definition add_response :: "pydict \<Rightarrow> string \<Rightarrow> int \<Rightarrow> error + int" where
  "add_response responses k score =
     (if truthy (dict_get responses k)
      then (case dict_item responses k of
              Inl e \<Rightarrow> Inl e
            | Inr v \<Rightarrow> (case py_int v of Inl e \<Rightarrow> Inl e | Inr i \<Rightarrow> Inr (score + i)))
      else Inr score)"

definition assess_anxiety ::
  "database \<Rightarrow> datetime \<Rightarrow> string \<Rightarrow> pydict \<Rightarrow> (error + pydict) \<times> database" where
  "assess_anxiety db commit_time patient_id responses =
     (case scalar_one_or_none (filter (\<lambda>r. Patient_id r = patient_id) (db_patients db)) of
        Inl e \<Rightarrow> (Inl e, db)
      | Inr None \<Rightarrow> (Inl (ValueError ''Patient not found''), db)
      | Inr (Some patient) \<Rightarrow>
     (case add_response responses ''nervous'' 0 of
        Inl e \<Rightarrow> (Inl e, db)
      | Inr score1 \<Rightarrow>
     (case add_response responses ''worrying'' score1 of
        Inl e \<Rightarrow> (Inl e, db)
      | Inr score2 \<Rightarrow>
     (case add_response responses ''relaxation_difficulty'' score2 of
        Inl e \<Rightarrow> (Inl e, db)
      | Inr score3 \<Rightarrow>
          (let score = (if truthy (dict_get responses ''previous_ct_experience'')
                           \<and> dict_get responses ''previous_ct_experience'' = PStr ''negative''
                        then score3 + 2 else score3);
               anxiety_level = (if score \<le> 2 then A_NONE
                                else if score \<le> 5 then A_MILD
                                else if score \<le> 8 then A_MODERATE
                                else A_SEVERE);
               patient' = patient\<lparr>Patient_anxiety_level := anxiety_level\<rparr>;
               db' = commit_Patient db commit_time patient patient';
               recommendations = get_anxiety_recommendations anxiety_level
           in (Inr (map_of
                 [(''patient_id'', PStr patient_id),
                  (''anxiety_level'', PStr (AnxietyLevel_value anxiety_level)),
                  (''score'', PInt score),
                  (''recommendations'', PList (map PStr recommendations))]),
               db'))))))"


subsection \<open>The anxiety score of the specification\<close>

text \<open>
  The anxiety score as the specification words it: the sum of the numeric values under
  the three keys, an absent key counting 0, plus 2 when the previous experience was
  negative.
\<close>

fun numeric_value :: "pyval \<Rightarrow> real" where
  "numeric_value (PInt i) = real_of_int i"
| "numeric_value (PFloat x) = x"
| "numeric_value (PBool b) = (if b then 1 else 0)"
| "numeric_value v = 0"

definition spec_anxiety_score :: "pydict \<Rightarrow> real" where
  "spec_anxiety_score responses =
     numeric_value (dict_get responses ''nervous'')
     + numeric_value (dict_get responses ''worrying'')
     + numeric_value (dict_get responses ''relaxation_difficulty'')
     + (if responses ''previous_ct_experience'' = Some (PStr ''negative'') then 2 else 0)"

section \<open>Authentication utilities\<close>










section \<open>Authentication middleware and the scan status route\<close>

text \<open>
  \<open>get_current_user_id\<close>.  \<open>decode_access_token\<close> is the token decoder of
  \<open>utils/auth.py\<close>, which hands the token to the JWT library and gives \<open>None\<close> when
  the library rejects it.
\<close>

definition get_current_user_id ::
  "(string \<Rightarrow> pydict option) \<Rightarrow> string option \<Rightarrow> error + pyval" where
  "get_current_user_id decode_access_token credentials =
     (case credentials of
        None \<Rightarrow> Inl (HTTPException 401 ''Not authenticated'')
      | Some token \<Rightarrow>
          (case decode_access_token token of
             None \<Rightarrow> Inl (HTTPException 401 ''Invalid or expired token'')
           | Some payload \<Rightarrow>
               if payload = Map.empty then Inl (HTTPException 401 ''Invalid or expired token'')
               else (let user_id = dict_get payload ''sub''
                     in if \<not> truthy user_id then Inl (HTTPException 401 ''Invalid token payload'')
                        else Inr user_id)))"

record CTScanResponse =
  CTScanResponse_id :: string
  CTScanResponse_scan_number :: string
  CTScanResponse_patient_id :: string
  CTScanResponse_ordering_physician_id :: "string option"
  CTScanResponse_radiology_technician_id :: "string option"
  CTScanResponse_radiologist_id :: "string option"
  CTScanResponse_scanner_id :: "string option"
  CTScanResponse_ct_indication :: string
  CTScanResponse_clinical_history :: "string option"
  CTScanResponse_symptoms :: "string option"
  CTScanResponse_onset_time :: "datetime option"
  CTScanResponse_gcs_score :: "int option"
  CTScanResponse_neurological_findings :: "string option"
  CTScanResponse_urgency_level :: string
  CTScanResponse_appropriateness_score :: "string option"
  CTScanResponse_contrast :: string
  CTScanResponse_status :: string
  CTScanResponse_scheduled_time :: "datetime option"
  CTScanResponse_started_time :: "datetime option"
  CTScanResponse_completed_time :: "datetime option"
  CTScanResponse_preliminary_report :: "string option"
  CTScanResponse_final_report :: "string option"
  CTScanResponse_critical_findings :: bool
  CTScanResponse_ordered_at :: datetime
  CTScanResponse_created_at :: datetime

definition scan_to_response :: "CTScan \<Rightarrow> CTScanResponse" where
  "scan_to_response scan =
     \<lparr>CTScanResponse_id = CTScan_id scan,
      CTScanResponse_scan_number = CTScan_scan_number scan,
      CTScanResponse_patient_id = CTScan_patient_id scan,
      CTScanResponse_ordering_physician_id = CTScan_ordering_physician_id scan,
      CTScanResponse_radiology_technician_id = CTScan_radiology_technician_id scan,
      CTScanResponse_radiologist_id = CTScan_radiologist_id scan,
      CTScanResponse_scanner_id = CTScan_scanner_id scan,
      CTScanResponse_ct_indication = CTScan_ct_indication scan,
      CTScanResponse_clinical_history = CTScan_clinical_history scan,
      CTScanResponse_symptoms = CTScan_symptoms scan,
      CTScanResponse_onset_time = CTScan_onset_time scan,
      CTScanResponse_gcs_score = CTScan_gcs_score scan,
      CTScanResponse_neurological_findings = CTScan_neurological_findings scan,
      CTScanResponse_urgency_level = UrgencyLevel_value (CTScan_urgency_level scan),
      CTScanResponse_appropriateness_score =
        (case CTScan_appropriateness_score scan of
           None \<Rightarrow> None
         | Some a \<Rightarrow> Some (AppropriatenessScore_value a)),
      CTScanResponse_contrast = CTContrast_value (CTScan_contrast scan),
      CTScanResponse_status = ScanStatus_value (CTScan_status scan),
      CTScanResponse_scheduled_time = CTScan_scheduled_time scan,
      CTScanResponse_started_time = CTScan_started_time scan,
      CTScanResponse_completed_time = CTScan_completed_time scan,
      CTScanResponse_preliminary_report = CTScan_preliminary_report scan,
      CTScanResponse_final_report = CTScan_final_report scan,
      CTScanResponse_critical_findings = CTScan_critical_findings scan,
      CTScanResponse_ordered_at = CTScan_ordered_at scan,
      CTScanResponse_created_at = CTScan_created_at scan\<rparr>"

text \<open>
  The attribute writes of the route \<open>PATCH /{scan_id}/status\<close>, in order; \<open>now1\<close> and
  \<open>now2\<close> are the two clock readings it takes.
\<close>

definition patch_status :: "CTScan \<Rightarrow> ScanStatus \<Rightarrow> datetime \<Rightarrow> datetime \<Rightarrow> CTScan" where
  "patch_status scan new_status now1 now2 =
     (let scan1 = scan\<lparr>CTScan_status := new_status\<rparr>;
          scan2 = (if new_status = IN_PROGRESS then scan1\<lparr>CTScan_started_time := Some now1\<rparr>
                   else if new_status = COMPLETED then scan1\<lparr>CTScan_completed_time := Some now1\<rparr>
                   else if new_status = REPORTED then scan1\<lparr>CTScan_reported_time := Some now1\<rparr>
                   else scan1)
      in scan2\<lparr>CTScan_updated_at := now2\<rparr>)"

definition update_scan_status ::
  "(string \<Rightarrow> pydict option) \<Rightarrow> database \<Rightarrow> datetime \<Rightarrow> datetime \<Rightarrow> datetime \<Rightarrow>
     string option \<Rightarrow> string \<Rightarrow> ScanStatus \<Rightarrow> (error + CTScanResponse) \<times> database" where
  "update_scan_status decode_access_token db now1 now2 commit_time credentials scan_id new_status =
     (case get_current_user_id decode_access_token credentials of
        Inl e \<Rightarrow> (Inl e, db)
      | Inr user_id \<Rightarrow>
     (case scalar_one_or_none (filter (\<lambda>r. CTScan_id r = scan_id) (db_ct_scans db)) of
        Inl e \<Rightarrow> (Inl e, db)
      | Inr None \<Rightarrow> (Inl (HTTPException 404 ''CT scan not found''), db)
      | Inr (Some scan) \<Rightarrow>
          (let scan' = patch_status scan new_status now1 now2
           in (Inr (scan_to_response (flush_CTScan commit_time scan scan')),
               commit_CTScan db commit_time scan scan'))))"

section \<open>Broadcast channel\<close>

text \<open>
  A connection is known by its identity.  The manager holds the rooms, each with its
  list of connections, and the per-user connections.
\<close>

type_synonym WebSocket = nat

record SocketManager =
  active_connections :: "string \<rightharpoonup> WebSocket list"
  user_connections :: "string \<rightharpoonup> WebSocket"

definition SocketManager_init :: SocketManager where
  "SocketManager_init = \<lparr>active_connections = Map.empty, user_connections = Map.empty\<rparr>"

text \<open>\<open>connect\<close>: \<open>accepted\<close> tells whether \<open>websocket.accept()\<close> returned or raised.\<close>

definition connect :: "SocketManager \<Rightarrow> bool \<Rightarrow> WebSocket \<Rightarrow> string \<Rightarrow> (error + unit) \<times> SocketManager" where
  "connect sm accepted websocket room =
     (if \<not> accepted then (Inl RuntimeError, sm)
      else (let conns = (case active_connections sm room of None \<Rightarrow> [] | Some cs \<Rightarrow> cs)
            in (Inr (),
                sm\<lparr>active_connections := (active_connections sm)(room \<mapsto> conns @ [websocket])\<rparr>)))"

definition disconnect :: "SocketManager \<Rightarrow> WebSocket \<Rightarrow> string \<Rightarrow> SocketManager" where
  "disconnect sm websocket room =
     (case active_connections sm room of
        None \<Rightarrow> sm
      | Some conns \<Rightarrow>
          (let conns' = (if websocket \<in> set conns then remove1 websocket conns else conns)
           in if conns' = []
              then sm\<lparr>active_connections := (active_connections sm)(room := None)\<rparr>
              else sm\<lparr>active_connections := (active_connections sm)(room \<mapsto> conns')\<rparr>))"

text \<open>
  \<open>broadcast\<close>: \<open>send_fails i c\<close> tells whether sending to the connection \<open>c\<close> met at
  position \<open>i\<close> of the room raised.  The failed connections are disconnected afterwards.
\<close>

definition broadcast :: "SocketManager \<Rightarrow> (nat \<Rightarrow> WebSocket \<Rightarrow> bool) \<Rightarrow> string \<Rightarrow> SocketManager" where
  "broadcast sm send_fails room =
     (case active_connections sm room of
        None \<Rightarrow> sm
      | Some conns \<Rightarrow>
          (let disconnected = map snd (filter (\<lambda>(i, c). send_fails i c) (enumerate 0 conns))
           in fold (\<lambda>connection s. disconnect s connection room) disconnected sm))"

datatype manager_op =
    Connect bool WebSocket string
  | Disconnect WebSocket string
  | Broadcast "nat \<Rightarrow> WebSocket \<Rightarrow> bool" string

fun apply_manager_op :: "SocketManager \<Rightarrow> manager_op \<Rightarrow> SocketManager" where
  "apply_manager_op sm (Connect accepted websocket room) = snd (connect sm accepted websocket room)"
| "apply_manager_op sm (Disconnect websocket room) = disconnect sm websocket room"
| "apply_manager_op sm (Broadcast send_fails room) = broadcast sm send_fails room"

definition run_manager :: "manager_op list \<Rightarrow> SocketManager" where
  "run_manager ops = fold (\<lambda>op sm. apply_manager_op sm op) ops SocketManager_init"


section \<open>Sample data\<close>

text \<open>Concrete rows on which the theorems below are instantiated.\<close>

definition sample_scan :: CTScan where
  "sample_scan =
     \<lparr>CTScan_id = ''scan-1'', CTScan_scan_number = ''CT-20260101080000-AB12'',
      CTScan_patient_id = ''p-1'', CTScan_ordering_physician_id = Some ''u-1'',
      CTScan_radiology_technician_id = None, CTScan_radiologist_id = None,
      CTScan_scanner_id = None, CTScan_ct_indication = ''acute stroke symptoms'',
      CTScan_clinical_history = None, CTScan_symptoms = None, CTScan_onset_time = None,
      CTScan_gcs_score = None, CTScan_neurological_findings = None,
      CTScan_urgency_level = ROUTINE, CTScan_appropriateness_score = None,
      CTScan_appropriateness_reason = None, CTScan_contrast = WITHOUT_CONTRAST,
      CTScan_ai_preliminary_findings = None, CTScan_ai_motion_artifact = False,
      CTScan_ai_quality_score = None, CTScan_status = ORDERED,
      CTScan_scheduled_time = None, CTScan_started_time = None,
      CTScan_completed_time = None, CTScan_reported_time = None,
      CTScan_preliminary_report = None, CTScan_final_report = None,
      CTScan_critical_findings = False, CTScan_critical_findings_notification = False,
      CTScan_transport_requested = False, CTScan_transport_eta = None,
      CTScan_transport_team = None, CTScan_ordered_at = 100, CTScan_created_at = 100,
      CTScan_updated_at = 100\<rparr>"

definition sample_scanner :: Scanner where
  "sample_scanner =
     \<lparr>Scanner_id = ''ct-01'', Scanner_scanner_code = ''CT-01'', Scanner_name = ''Main CT'',
      Scanner_location = None, Scanner_scanner_type = STANDARD, Scanner_slice_count = Some 64,
      Scanner_manufacturer = None, Scanner_model = None, Scanner_serial_number = None,
      Scanner_status = AVAILABLE, Scanner_is_active = True,
      Scanner_operational_hours_start = ''08:00'', Scanner_operational_hours_end = ''22:00'',
      Scanner_avg_scan_duration_minutes = 30, Scanner_daily_capacity = 1,
      Scanner_today_scans_completed = 0, Scanner_today_scans_scheduled = 1,
      Scanner_current_utilization = 0, Scanner_last_maintenance = None,
      Scanner_next_maintenance = None, Scanner_maintenance_notes = None,
      Scanner_created_at = 50, Scanner_updated_at = 50\<rparr>"

definition sample_db :: database where
  "sample_db =
     \<lparr>db_ct_scans = [sample_scan], db_scanners = [sample_scanner],
      db_patients = [], db_faqs = []\<rparr>"

definition sample_decode :: "string \<Rightarrow> pydict option" where
  "sample_decode token =
     (if token = ''token-1'' then Some [''sub'' \<mapsto> PStr ''u-1'', ''type'' \<mapsto> PStr ''access'']
      else None)"

definition sample_faq1 :: FAQ where
  "sample_faq1 =
     \<lparr>FAQ_id = ''faq-1'', FAQ_question = ''Will I need contrast?'',
      FAQ_answer = ''Your doctor decides whether contrast is needed.'',
      FAQ_category = Some ''preparation'', FAQ_keywords = Some ''Contrast, dye'',
      FAQ_language = ''en'', FAQ_embedding = None, FAQ_view_count = 0,
      FAQ_helpful_count = 0, FAQ_not_helpful_count = 0, FAQ_is_active = True,
      FAQ_created_at = 10, FAQ_updated_at = 10\<rparr>"

definition sample_faq2 :: FAQ where
  "sample_faq2 =
     \<lparr>FAQ_id = ''faq-2'', FAQ_question = ''How long does the scan take?'',
      FAQ_answer = ''About ten minutes.'',
      FAQ_category = Some ''procedure'', FAQ_keywords = None,
      FAQ_language = ''en'', FAQ_embedding = None, FAQ_view_count = 5,
      FAQ_helpful_count = 0, FAQ_not_helpful_count = 0, FAQ_is_active = True,
      FAQ_created_at = 11, FAQ_updated_at = 11\<rparr>"

definition sample_faq_db :: database where
  "sample_faq_db =
     \<lparr>db_ct_scans = [], db_scanners = [], db_patients = [],
      db_faqs = [sample_faq1, sample_faq2]\<rparr>"

definition sample_patient :: Patient where
  "sample_patient =
     \<lparr>Patient_id = ''p-1'', Patient_mrn = ''M-100'', Patient_name = ''A. Patient'',
      Patient_ic_number = None, Patient_date_of_birth = 0, Patient_gender = OTHER,
      Patient_phone = None, Patient_email = None, Patient_address = None,
      Patient_ed_visit_id = None, Patient_ward = None, Patient_bed_number = None,
      Patient_chief_complaint = None, Patient_clinical_notes = None,
      Patient_allergies = None, Patient_status = P_REGISTERED,
      Patient_anxiety_level = A_NONE, Patient_consent_given = False,
      Patient_consent_timestamp = None, Patient_digital_consent_form = None,
      Patient_registered_at = 20, Patient_updated_at = 20\<rparr>"

definition sample_patient_db :: database where
  "sample_patient_db =
     \<lparr>db_ct_scans = [], db_scanners = [], db_patients = [sample_patient], db_faqs = []\<rparr>"




section \<open>Properties of the string operations\<close>

lemma py_startswith_iff: "py_startswith hay needle \<longleftrightarrow> (\<exists>ss. hay = needle @ ss)"
  by (induction hay needle rule: py_startswith.induct) auto

lemma py_in_iff: "py_in needle hay \<longleftrightarrow> (\<exists>ps ss. hay = ps @ needle @ ss)"
proof (induction hay)
  case Nil
  show ?case by auto
next
  case (Cons h hs)
  have "(\<exists>ps ss. h # hs = ps @ needle @ ss) \<longleftrightarrow>
        (\<exists>ss. h # hs = needle @ ss) \<or> (\<exists>ps ss. hs = ps @ needle @ ss)"
    by (auto simp: Cons_eq_append_conv)
  with Cons show ?case by (simp add: py_startswith_iff)
qed

section \<open>Urgency determination\<close>

lemma combined_text_lower:
  "combined_text ind hist sympt =
     py_lower (ind @ '' '' @ (case hist of None \<Rightarrow> [] | Some h \<Rightarrow> h) @ '' ''
               @ (case sympt of None \<Rightarrow> [] | Some s \<Rightarrow> s))"
proof -
  have h: "(if str_truthy hist then py_lower (the hist) else []) =
           py_lower (case hist of None \<Rightarrow> [] | Some h \<Rightarrow> h)"
    by (cases hist) (auto simp: py_lower_def)
  have s: "(if str_truthy sympt then py_lower (the sympt) else []) =
           py_lower (case sympt of None \<Rightarrow> [] | Some s \<Rightarrow> s)"
    by (cases sympt) (auto simp: py_lower_def)
  have sp: "py_lower_char CHR '' '' = CHR '' ''"
    by (simp add: py_lower_char_def)
  show ?thesis
    unfolding combined_text_def Let_def h s
    by (simp add: py_lower_def sp)
qed

lemma analyze_urgency_level:
  "analyze_ct_indication ind hist sympt ''urgency_level'' =
     Some (PStr (UrgencyLevel_value (determine_urgency (combined_text ind hist sympt))))"
  by (simp add: analyze_ct_indication_def Let_def split: prod.splits)

text \<open>
  C3.  The urgency that \<open>analyze_ct_indication\<close> reports is decided by a substring scan
  of the lower-cased text \<open>indication + " " + history + " " + symptoms\<close> (an absent
  history or symptom text counting as empty): "immediate" when one of the nine
  immediate-tier keywords occurs in it, whether or not an urgent-tier keyword occurs as
  well; otherwise "urgent" when one of the seven urgent-tier keywords occurs; otherwise
  "routine".
\<close>

theorem urgency_keyword_tiers:
  "let joined = ind @ '' '' @ (case hist of None \<Rightarrow> [] | Some h \<Rightarrow> h) @ '' ''
                @ (case sympt of None \<Rightarrow> [] | Some s \<Rightarrow> s);
       has = (\<lambda>k. \<exists>ps ss. py_lower joined = ps @ k @ ss)
   in analyze_ct_indication ind hist sympt ''urgency_level'' =
        Some (PStr
          (if \<exists>k \<in> {''stroke'', ''hemorrhage'', ''bleeding'', ''seizure'', ''unconscious'',
                      ''coma'', ''focal deficit'', ''mass effect'', ''herniation''}. has k
           then ''immediate''
           else if \<exists>k \<in> {''trauma'', ''head injury'', ''confusion'', ''altered'',
                           ''persistent headache'', ''vomiting'', ''papilledema''}. has k
           then ''urgent''
           else ''routine''))"
proof -
  have i: "set immediate_indicators =
        {''stroke'', ''hemorrhage'', ''bleeding'', ''seizure'', ''unconscious'',
         ''coma'', ''focal deficit'', ''mass effect'', ''herniation''}"
    by (simp add: immediate_indicators_def)
  have u: "set urgent_indicators =
        {''trauma'', ''head injury'', ''confusion'', ''altered'',
         ''persistent headache'', ''vomiting'', ''papilledema''}"
    by (simp add: urgent_indicators_def)
  show ?thesis
    unfolding Let_def analyze_urgency_level determine_urgency_def list_ex_iff py_in_iff
      combined_text_lower i u
    by (simp only: if_distrib[of UrgencyLevel_value] UrgencyLevel_value.simps)
qed

theorem urgency_keyword_tiers_witness:
  "analyze_ct_indication ''Stroke after TRAUMA'' None None ''urgency_level''
     = Some (PStr ''immediate'')
   \<and> analyze_ct_indication ''Headache'' (Some ''Mild CONFUSION'') None ''urgency_level''
     = Some (PStr ''urgent'')
   \<and> analyze_ct_indication ''Check-up'' None (Some ''none'') ''urgency_level''
     = Some (PStr ''routine'')"
proof -
  have a: "py_lower ''Stroke after TRAUMA  '' = ''stroke after trauma  ''"
    by code_simp
  have b: "py_lower ''Headache Mild CONFUSION '' = ''headache mild confusion ''"
    by code_simp
  have c: "py_lower ''Check-up  none'' = ''check-up  none''"
    by code_simp
  have 1: "analyze_ct_indication ''Stroke after TRAUMA'' None None ''urgency_level''
             = Some (PStr ''immediate'')"
    using urgency_keyword_tiers [of "''Stroke after TRAUMA''" None None]
    by (simp add: Let_def a py_in_iff [symmetric])
  have 2: "analyze_ct_indication ''Headache'' (Some ''Mild CONFUSION'') None ''urgency_level''
     = Some (PStr ''urgent'')"
    using urgency_keyword_tiers [of "''Headache''" "Some ''Mild CONFUSION''" None]
    by (simp add: Let_def b py_in_iff [symmetric])
  have 3: "analyze_ct_indication ''Check-up'' None (Some ''none'') ''urgency_level''
     = Some (PStr ''routine'')"
    using urgency_keyword_tiers [of "''Check-up''" None "Some ''none''"]
    by (simp add: Let_def c py_in_iff [symmetric])
  from 1 2 3 show ?thesis by simp
qed

section \<open>Glasgow Coma Scale\<close>

text \<open>
  C5.  For all integer responses the result carries the total \<open>eye + verbal + motor\<close>,
  the severity "mild" from 13, "moderate" from 9 and "severe" below, and an
  interpretation read off the highest of the thresholds 15, 13, 9, 8 that does not exceed
  the total, or "Critical - immediate intervention required" when the total is below 8.
\<close>

theorem gcs_total_severity_interpretation:
  "let total = eye_response + verbal_response + motor_response;
       r = calculate_gcs_score eye_response verbal_response motor_response;
       table = [(15, ''Normal consciousness''), (13, ''Minor brain injury''),
                (9, ''Moderate brain injury''), (8, ''Severe brain injury (coma)'')];
       below = {k \<in> fst ` set table. k \<le> total}
   in r ''total_score'' = Some (PInt total)
    \<and> r ''severity'' = Some (PStr (if total \<ge> 13 then ''mild''
                                   else if total \<ge> 9 then ''moderate'' else ''severe''))
    \<and> r ''interpretation'' =
        Some (PStr (if below = {} then ''Critical - immediate intervention required''
                    else the (map_of table (Max below))))"
proof -
  define total where "total = eye_response + verbal_response + motor_response"
  have keys: "rev (sort (map fst interpretations)) = [15, 13, 9, 8]"
    by (simp add: interpretations_def)
  have tbl: "fst ` set [(15::int, ''Normal consciousness''), (13, ''Minor brain injury''),
                (9, ''Moderate brain injury''), (8, ''Severe brain injury (coma)'')]
             = {15, 13, 9, 8}"
    by simp
  let ?below = "{k \<in> {15, 13, 9, 8 :: int}. k \<le> total}"
  consider "15 \<le> total" | "13 \<le> total" "total < 15" | "9 \<le> total" "total < 13"
    | "8 \<le> total" "total < 9" | "total < 8"
    by linarith
  then have interp: "interpret_gcs total =
     (if ?below = {} then ''Critical - immediate intervention required''
      else the (map_of interpretations (Max ?below)))"
  proof cases
    case 1
    then have "?below = {15, 13, 9, 8}" by auto
    with 1 show ?thesis by (simp add: interpret_gcs_def keys interpretations_def)
  next
    case 2
    then have "?below = {13, 9, 8}" by auto
    with 2 show ?thesis by (simp add: interpret_gcs_def keys interpretations_def)
  next
    case 3
    then have "?below = {9, 8}" by auto
    with 3 show ?thesis by (simp add: interpret_gcs_def keys interpretations_def)
  next
    case 4
    then have "?below = {8}" by auto
    with 4 show ?thesis by (simp add: interpret_gcs_def keys interpretations_def)
  next
    case 5
    then have "?below = {}" by auto
    with 5 show ?thesis by (simp add: interpret_gcs_def keys interpretations_def)
  qed
  have r1: "calculate_gcs_score eye_response verbal_response motor_response ''total_score''
              = Some (PInt total)"
    by (simp add: calculate_gcs_score_def total_def Let_def)
  have r2: "calculate_gcs_score eye_response verbal_response motor_response ''severity''
              = Some (PStr (if total \<ge> 13 then ''mild''
                            else if total \<ge> 9 then ''moderate'' else ''severe''))"
    by (simp add: calculate_gcs_score_def total_def Let_def)
  have r3: "calculate_gcs_score eye_response verbal_response motor_response ''interpretation''
              = Some (PStr (interpret_gcs total))"
    by (simp add: calculate_gcs_score_def total_def Let_def)
  show ?thesis
    unfolding Let_def tbl total_def [symmetric] r1 r2 r3 interp interpretations_def
    by (intro conjI refl)
qed

theorem gcs_total_severity_interpretation_witness:
  "calculate_gcs_score 4 5 6 ''total_score'' = Some (PInt 15)
   \<and> calculate_gcs_score 4 5 6 ''severity'' = Some (PStr ''mild'')
   \<and> calculate_gcs_score 4 5 6 ''interpretation'' = Some (PStr ''Normal consciousness'')
   \<and> calculate_gcs_score 1 2 4 ''total_score'' = Some (PInt 7)
   \<and> calculate_gcs_score 1 2 4 ''severity'' = Some (PStr ''severe'')
   \<and> calculate_gcs_score 1 2 4 ''interpretation''
       = Some (PStr ''Critical - immediate intervention required'')"
proof -
  have b: "{k \<in> fst ` set [(15, ''Normal consciousness''), (13, ''Minor brain injury''),
                (9, ''Moderate brain injury''), (8, ''Severe brain injury (coma)'')].
            k \<le> (4 + 5 + 6 :: int)} = {15, 13, 9, 8}"
    by auto
  have c: "{k \<in> fst ` set [(15, ''Normal consciousness''), (13, ''Minor brain injury''),
                (9, ''Moderate brain injury''), (8, ''Severe brain injury (coma)'')].
            k \<le> (1 + 2 + 4 :: int)} = {}"
    by auto
  note t1 = gcs_total_severity_interpretation [of 4 5 6, unfolded Let_def b]
  note t2 = gcs_total_severity_interpretation [of 1 2 4, unfolded Let_def c]
  from t1 t2 show ?thesis by simp
qed

section \<open>Appropriateness scoring\<close>

lemma criteria_matches_card:
  "criteria_matches c text \<longleftrightarrow>
     card (set (py_split c) \<inter> set (py_split text)) \<ge> min 2 (card (set (py_split c)))"
proof -
  have "length (filter (\<lambda>w. w \<in> set (remdups (py_split text))) (remdups (py_split c)))
          = card (set (py_split c) \<inter> set (py_split text))"
    by (simp add: distinct_length_filter Int_commute)
  moreover have "length (remdups (py_split c)) = card (set (py_split c))"
    by (simp add: length_remdups_card_conv)
  ultimately show ?thesis
    unfolding criteria_matches_def Let_def by (simp add: min_def)
qed

lemma appropriateness_loop_result:
  "appropriateness_loop cs text (b, r) = (b', r') \<Longrightarrow>
     b \<le> b' \<and>
     (\<forall>c s. (c, s) \<in> set cs \<and> criteria_matches c text \<longrightarrow> s \<le> b') \<and>
     ((b', r') = (b, r)
      \<or> (\<exists>c. (c, b') \<in> set cs \<and> criteria_matches c text \<and> b < b'
             \<and> r' = ''Matched criteria: '' @ c))"
proof (induction cs arbitrary: b r)
  case Nil
  then show ?case by simp
next
  case (Cons a cs)
  obtain c s where a: "a = (c, s)" by (cases a)
  show ?case
  proof (cases "criteria_matches c text \<and> s > b")
    case True
    define r0 where "r0 = ''Matched criteria: '' @ c"
    from Cons.prems a True have "appropriateness_loop cs text (s, r0) = (b', r')"
      by (simp add: r0_def)
    from Cons.IH [OF this]
    have ih: "s \<le> b'"
      "\<forall>c s. (c, s) \<in> set cs \<and> criteria_matches c text \<longrightarrow> s \<le> b'"
      "(b', r') = (s, r0) \<or> (\<exists>c. (c, b') \<in> set cs \<and> criteria_matches c text \<and> s < b'
             \<and> r' = ''Matched criteria: '' @ c)"
      by blast+
    have 1: "b \<le> b'" using ih(1) True by linarith
    have 2: "\<forall>c' s'. (c', s') \<in> set (a # cs) \<and> criteria_matches c' text \<longrightarrow> s' \<le> b'"
      using ih(1,2) a by auto
    from ih(3) have 3: "\<exists>c'. (c', b') \<in> set (a # cs) \<and> criteria_matches c' text \<and> b < b'
             \<and> r' = ''Matched criteria: '' @ c'"
    proof
      assume "(b', r') = (s, r0)"
      then have "(c, b') \<in> set (a # cs)" "r' = ''Matched criteria: '' @ c" "b < b'"
        using a True by (simp_all add: r0_def)
      with True show ?thesis by blast
    next
      assume "\<exists>c. (c, b') \<in> set cs \<and> criteria_matches c text \<and> s < b'
             \<and> r' = ''Matched criteria: '' @ c"
      then obtain c' where "(c', b') \<in> set cs" "criteria_matches c' text" "s < b'"
        "r' = ''Matched criteria: '' @ c'" by blast
      moreover from this True have "b < b'" by linarith
      ultimately show ?thesis by (intro exI [of _ c']) simp
    qed
    from 1 2 3 show ?thesis by blast
  next
    case False
    with Cons.prems a have "appropriateness_loop cs text (b, r) = (b', r')"
      by (auto split: if_splits)
    from Cons.IH [OF this]
    have ih: "b \<le> b'"
      "\<forall>c s. (c, s) \<in> set cs \<and> criteria_matches c text \<longrightarrow> s \<le> b'"
      "(b', r') = (b, r) \<or> (\<exists>c. (c, b') \<in> set cs \<and> criteria_matches c text \<and> b < b'
             \<and> r' = ''Matched criteria: '' @ c)"
      by blast+
    have 2: "\<forall>c' s'. (c', s') \<in> set (a # cs) \<and> criteria_matches c' text \<longrightarrow> s' \<le> b'"
      using ih(1,2) a False by auto
    from ih(3) have 3: "(b', r') = (b, r) \<or> (\<exists>c'. (c', b') \<in> set (a # cs)
             \<and> criteria_matches c' text \<and> b < b' \<and> r' = ''Matched criteria: '' @ c')"
    proof
      assume "(b', r') = (b, r)"
      then show ?thesis by (rule disjI1)
    next
      assume "\<exists>c. (c, b') \<in> set cs \<and> criteria_matches c text \<and> b < b'
             \<and> r' = ''Matched criteria: '' @ c"
      then obtain c' where "(c', b') \<in> set cs" "criteria_matches c' text" "b < b'"
        "r' = ''Matched criteria: '' @ c'" by blast
      then have "\<exists>c'. (c', b') \<in> set (a # cs)
             \<and> criteria_matches c' text \<and> b < b' \<and> r' = ''Matched criteria: '' @ c'"
        by (intro exI [of _ c']) simp
      then show ?thesis by (rule disjI2)
    qed
    from ih(1) 2 3 show ?thesis by blast
  qed
qed

lemma py_str_int_0: "py_str_int 0 = ''0''"
  by code_simp

lemma criteria_scores_positive: "\<forall>(c, s) \<in> set APPROPRIATENESS_CRITERIA. 0 < s"
  by (simp add: APPROPRIATENESS_CRITERIA_def)

text \<open>
  C4.  Each of the thirteen criteria is matched when the set of its words and the set of
  the words of the text share at least \<open>min(2, number of criterion words)\<close> elements
  (no criterion repeats a word, so its word count is the size of its word set).
  With no criterion matched the result is very_low with the reason
  "Score: 0/9 - No specific criteria matched".  Otherwise the result comes from a matched
  criterion whose score \<open>n\<close> is the highest among the matched ones: the category is
  very_high from 7, high from 6, moderate from 4, low from 2 and very_low below, and the
  reason is "Score: n/9 - Matched criteria: " followed by the criterion.
\<close>

theorem appropriateness_best_match:
  "let matches = (\<lambda>c. card (set (py_split c) \<inter> set (py_split text))
                         \<ge> min 2 (card (set (py_split c))));
       matched = filter (\<lambda>(c, s). matches c) APPROPRIATENESS_CRITERIA;
       category = (\<lambda>n :: int. if n \<ge> 7 then VERY_HIGH else if n \<ge> 6 then HIGH
                                else if n \<ge> 4 then MODERATE else if n \<ge> 2 then LOW
                                else VERY_LOW)
   in length APPROPRIATENESS_CRITERIA = 13
    \<and> (\<forall>(c, s) \<in> set APPROPRIATENESS_CRITERIA. card (set (py_split c)) = length (py_split c))
    \<and> (if matched = []
        then calculate_appropriateness text
               = (VERY_LOW, ''Score: 0/9 - No specific criteria matched'')
        else \<exists>(c, s) \<in> set matched.
               (\<forall>(c', s') \<in> set matched. s' \<le> s)
               \<and> calculate_appropriateness text
                   = (category s, ''Score: '' @ py_str_int s @ ''/9 - Matched criteria: '' @ c))"
proof -
  let ?T = APPROPRIATENESS_CRITERIA
  let ?matched = "filter (\<lambda>(c, s). criteria_matches c text) ?T"
  obtain b' r' where loop:
    "appropriateness_loop ?T text (0, ''No specific criteria matched'') = (b', r')"
    by (cases "appropriateness_loop ?T text (0, ''No specific criteria matched'')")
  note res = appropriateness_loop_result [OF loop]
  have len: "length ?T = 13"
    by (simp add: APPROPRIATENESS_CRITERIA_def)
  have calc: "calculate_appropriateness text =
      ((if b' \<ge> 7 then VERY_HIGH else if b' \<ge> 6 then HIGH
        else if b' \<ge> 4 then MODERATE else if b' \<ge> 2 then LOW else VERY_LOW),
       ''Score: '' @ py_str_int b' @ ''/9 - '' @ r')"
    by (simp add: calculate_appropriateness_def loop Let_def)
  have main: "if ?matched = []
        then calculate_appropriateness text
               = (VERY_LOW, ''Score: 0/9 - No specific criteria matched'')
        else \<exists>(c, s) \<in> set ?matched.
               (\<forall>(c', s') \<in> set ?matched. s' \<le> s)
               \<and> calculate_appropriateness text
                   = ((if s \<ge> 7 then VERY_HIGH else if s \<ge> 6 then HIGH
                       else if s \<ge> 4 then MODERATE else if s \<ge> 2 then LOW else VERY_LOW),
                      ''Score: '' @ py_str_int s @ ''/9 - Matched criteria: '' @ c)"
  proof (cases "?matched = []")
    case True
    then have none: "\<forall>(c, s) \<in> set ?T. \<not> criteria_matches c text"
      by (auto simp: filter_empty_conv)
    with res have "(b', r') = (0, ''No specific criteria matched'')"
      by blast
    with True calc show ?thesis by (simp add: py_str_int_0)
  next
    case False
    then obtain c0 s0 where m0: "(c0, s0) \<in> set ?T" "criteria_matches c0 text"
      by (auto simp: filter_empty_conv)
    with criteria_scores_positive have "0 < s0" by auto
    moreover from res m0 have "s0 \<le> b'" by blast
    ultimately have "b' \<noteq> 0" by simp
    with res obtain c s where cs: "(c, s) \<in> set ?T" "criteria_matches c text" "s = b'"
        "r' = ''Matched criteria: '' @ c"
      by blast
    have top: "\<forall>(c', s') \<in> set ?matched. s' \<le> s"
      using res cs(3) by fastforce
    have "(c, s) \<in> set ?matched" using cs by simp
    moreover have "calculate_appropriateness text
                   = ((if s \<ge> 7 then VERY_HIGH else if s \<ge> 6 then HIGH
                       else if s \<ge> 4 then MODERATE else if s \<ge> 2 then LOW else VERY_LOW),
                      ''Score: '' @ py_str_int s @ ''/9 - Matched criteria: '' @ c)"
      using calc cs by simp
    ultimately have "\<exists>(c, s) \<in> set ?matched.
               (\<forall>(c', s') \<in> set ?matched. s' \<le> s)
               \<and> calculate_appropriateness text
                   = ((if s \<ge> 7 then VERY_HIGH else if s \<ge> 6 then HIGH
                       else if s \<ge> 4 then MODERATE else if s \<ge> 2 then LOW else VERY_LOW),
                      ''Score: '' @ py_str_int s @ ''/9 - Matched criteria: '' @ c)"
      using top by blast
    with False show ?thesis by simp
  qed
  have "list_all (\<lambda>(c, s). distinct (py_split c)) ?T"
    by code_simp
  then have words: "\<forall>(c, s) \<in> set ?T. card (set (py_split c)) = length (py_split c)"
    by (auto simp: list_all_iff distinct_card)
  show ?thesis
    unfolding Let_def criteria_matches_card [symmetric]
    using len words main by simp
qed

theorem appropriateness_best_match_witness:
  "calculate_appropriateness ''routine follow-up visit''
     = (VERY_LOW, ''Score: 0/9 - No specific criteria matched'')
   \<and> calculate_appropriateness ''acute stroke symptoms with trauma''
     = (VERY_HIGH, ''Score: 9/9 - Matched criteria: acute stroke symptoms'')"
proof -
  have none: "filter (\<lambda>(c, s). criteria_matches c ''routine follow-up visit'')
                APPROPRIATENESS_CRITERIA = []"
    by code_simp
  have 1: "calculate_appropriateness ''routine follow-up visit''
     = (VERY_LOW, ''Score: 0/9 - No specific criteria matched'')"
    using appropriateness_best_match [of "''routine follow-up visit''"]
    unfolding Let_def criteria_matches_card [symmetric] none by simp
  have some: "filter (\<lambda>(c, s). criteria_matches c ''acute stroke symptoms with trauma'')
                APPROPRIATENESS_CRITERIA = [(''acute stroke symptoms'', 9)]"
    by code_simp
  have nine: "py_str_int 9 = ''9''"
    by code_simp
  have 2: "calculate_appropriateness ''acute stroke symptoms with trauma''
     = (VERY_HIGH, ''Score: 9/9 - Matched criteria: acute stroke symptoms'')"
    using appropriateness_best_match [of "''acute stroke symptoms with trauma''"]
    unfolding Let_def criteria_matches_card [symmetric] some by (simp add: nine)
  from 1 2 show ?thesis by simp
qed

section \<open>The room registry never holds an empty room\<close>

lemma connect_no_empty_room:
  assumes "\<forall>room. active_connections sm room \<noteq> Some []"
  shows "\<forall>room'. active_connections (snd (connect sm accepted websocket room)) room' \<noteq> Some []"
  using assms by (simp add: connect_def Let_def)

lemma disconnect_no_empty_room:
  assumes "\<forall>room. active_connections sm room \<noteq> Some []"
  shows "\<forall>room'. active_connections (disconnect sm websocket room) room' \<noteq> Some []"
  using assms by (cases "active_connections sm room") (simp_all add: disconnect_def Let_def)

lemma fold_disconnect_no_empty_room:
  assumes "\<forall>room. active_connections sm room \<noteq> Some []"
  shows "\<forall>room'. active_connections
            (fold (\<lambda>connection s. disconnect s connection room) cs sm) room' \<noteq> Some []"
  using assms
proof (induction cs arbitrary: sm)
  case Nil
  then show ?case by simp
next
  case (Cons c cs)
  from disconnect_no_empty_room [OF Cons.prems]
  have "\<forall>room'. active_connections (disconnect sm c room) room' \<noteq> Some []" .
  from Cons.IH [OF this] show ?case by simp
qed

lemma broadcast_no_empty_room:
  assumes "\<forall>room. active_connections sm room \<noteq> Some []"
  shows "\<forall>room'. active_connections (broadcast sm send_fails room) room' \<noteq> Some []"
proof (cases "active_connections sm room")
  case None
  with assms show ?thesis by (simp add: broadcast_def)
next
  case (Some conns)
  with fold_disconnect_no_empty_room [OF assms] show ?thesis
    by (simp add: broadcast_def Let_def)
qed

lemma apply_manager_op_no_empty_room:
  assumes "\<forall>room. active_connections sm room \<noteq> Some []"
  shows "\<forall>room'. active_connections (apply_manager_op sm op) room' \<noteq> Some []"
proof (cases op)
  case (Connect accepted websocket room)
  with connect_no_empty_room [OF assms] show ?thesis by simp
next
  case (Disconnect websocket room)
  with disconnect_no_empty_room [OF assms] show ?thesis by simp
next
  case (Broadcast send_fails room)
  with broadcast_no_empty_room [OF assms] show ?thesis by simp
qed

lemma fold_manager_ops_no_empty_room:
  assumes "\<forall>room. active_connections sm room \<noteq> Some []"
  shows "\<forall>room'. active_connections (fold (\<lambda>op sm. apply_manager_op sm op) ops sm) room'
           \<noteq> Some []"
  using assms
proof (induction ops arbitrary: sm)
  case Nil
  then show ?case by simp
next
  case (Cons op ops)
  from apply_manager_op_no_empty_room [OF Cons.prems]
  have "\<forall>room'. active_connections (apply_manager_op sm op) room' \<noteq> Some []" .
  from Cons.IH [OF this] show ?case by simp
qed

text \<open>
  C10.  Starting from a fresh manager, after any sequence of connect, disconnect and
  broadcast operations no room of \<open>active_connections\<close> is mapped to an empty list.
  \<open>disconnect\<close> deletes the entry of a room when it removes its last connection, and
  \<open>broadcast\<close> cleans up by calling \<open>disconnect\<close> for each connection whose send
  failed.
\<close>

theorem registry_has_no_empty_room:
  "active_connections (run_manager ops) room \<noteq> Some []
   \<and> (active_connections sm room = Some [websocket]
        \<longrightarrow> active_connections (disconnect sm websocket room) room = None)
   \<and> (\<forall>conns. active_connections sm room = Some conns \<longrightarrow>
        broadcast sm send_fails room =
          fold (\<lambda>connection s. disconnect s connection room)
               (map snd (filter (\<lambda>(i, c). send_fails i c) (enumerate 0 conns))) sm)"
proof -
  have "\<forall>room. active_connections SocketManager_init room \<noteq> Some []"
    by (simp add: SocketManager_init_def)
  from fold_manager_ops_no_empty_room [OF this]
  have 1: "active_connections (run_manager ops) room \<noteq> Some []"
    by (simp add: run_manager_def)
  have 2: "active_connections sm room = Some [websocket]
        \<longrightarrow> active_connections (disconnect sm websocket room) room = None"
    by (simp add: disconnect_def)
  have 3: "\<forall>conns. active_connections sm room = Some conns \<longrightarrow>
        broadcast sm send_fails room =
          fold (\<lambda>connection s. disconnect s connection room)
               (map snd (filter (\<lambda>(i, c). send_fails i c) (enumerate 0 conns))) sm"
    by (simp add: broadcast_def Let_def)
  from 1 2 3 show ?thesis by blast
qed

theorem registry_has_no_empty_room_witness:
  "active_connections
     (run_manager [Connect True 1 ''dashboard'', Connect True 2 ''scans'',
                   Connect True 3 ''dashboard'', Broadcast (\<lambda>i c. c = 3) ''dashboard'',
                   Disconnect 2 ''scans'']) ''scans'' = None
   \<and> active_connections
     (run_manager [Connect True 1 ''dashboard'', Connect True 2 ''scans'',
                   Connect True 3 ''dashboard'', Broadcast (\<lambda>i c. c = 3) ''dashboard'',
                   Disconnect 2 ''scans'']) ''dashboard'' = Some [1]
   \<and> active_connections
        (disconnect \<lparr>active_connections = [''scans'' \<mapsto> [2]], user_connections = Map.empty\<rparr>
           2 ''scans'') ''scans'' = None"
proof -
  let ?ops = "[Connect True 1 ''dashboard'', Connect True 2 ''scans'',
               Connect True 3 ''dashboard'', Broadcast (\<lambda>i c. c = 3) ''dashboard'',
               Disconnect 2 ''scans'']"
  let ?sm = "\<lparr>active_connections = [''scans'' \<mapsto> [2]], user_connections = Map.empty\<rparr>"
  have run: "active_connections (run_manager ?ops)
               = [''dashboard'' \<mapsto> [1]]"
    by (simp add: run_manager_def SocketManager_init_def connect_def disconnect_def
        broadcast_def Let_def fun_upd_twist)
  have pre: "active_connections ?sm ''scans'' = Some [2]"
    by simp
  from registry_has_no_empty_room [of ?ops "''scans''" ?sm 2 "\<lambda>i c. False"] pre
  have "active_connections (disconnect ?sm 2 ''scans'') ''scans'' = None"
    by blast
  with run show ?thesis by simp
qed

section \<open>Scanner capacity: checked when finding, not when scheduling\<close>

lemma scanner_to_dict_capacity:
  "scanner_to_dict s ''daily_capacity'' = Some (PInt (Scanner_daily_capacity s))"
  "scanner_to_dict s ''today_scans_scheduled'' = Some (PInt (Scanner_today_scans_scheduled s))"
  by (simp_all add: scanner_to_dict_def)

lemma find_available_loop_Some:
  "find_available_loop rows d now = Inr (Some dict) \<Longrightarrow>
     \<exists>r \<in> set rows. dict = scanner_to_dict r
        \<and> Scanner_today_scans_scheduled r < Scanner_daily_capacity r"
proof (induction rows)
  case Nil
  then show ?case by simp
next
  case (Cons r rows)
  then show ?case
    by (auto split: if_splits sum.splits)
qed

lemma find_available_scanner_Some:
  assumes "find_available_scanner db now d pt = Inr (Some dict)"
  shows "\<exists>r \<in> set (db_scanners db). dict = scanner_to_dict r
        \<and> Scanner_today_scans_scheduled r < Scanner_daily_capacity r
        \<and> Scanner_status r = AVAILABLE \<and> Scanner_is_active r"
proof (cases pt)
  case None
  with assms find_available_loop_Some show ?thesis
    by (fastforce simp: find_available_scanner_def Let_def)
next
  case (Some t)
  with assms find_available_loop_Some show ?thesis
    by (fastforce simp: find_available_scanner_def Let_def)
qed

lemma find_never_returns_full_scanner:
  assumes "Scanner_today_scans_scheduled s \<ge> Scanner_daily_capacity s"
  shows "find_available_scanner db now d pt \<noteq> Inr (Some (scanner_to_dict s))"
proof
  assume "find_available_scanner db now d pt = Inr (Some (scanner_to_dict s))"
  from find_available_scanner_Some [OF this]
  obtain r where r: "scanner_to_dict s = scanner_to_dict r"
    "Scanner_today_scans_scheduled r < Scanner_daily_capacity r" by blast
  from r(1) have "scanner_to_dict s ''daily_capacity'' = scanner_to_dict r ''daily_capacity''"
    "scanner_to_dict s ''today_scans_scheduled'' = scanner_to_dict r ''today_scans_scheduled''"
    by simp_all
  then have "Scanner_daily_capacity s = Scanner_daily_capacity r"
    "Scanner_today_scans_scheduled s = Scanner_today_scans_scheduled r"
    by (simp_all add: scanner_to_dict_capacity)
  with r(2) assms show False by simp
qed

lemma flush_Scanner_increment:
  "flush_Scanner commit_time scanner
     (scanner\<lparr>Scanner_today_scans_scheduled := Scanner_today_scans_scheduled scanner + 1\<rparr>)
   = scanner\<lparr>Scanner_today_scans_scheduled := Scanner_today_scans_scheduled scanner + 1,
             Scanner_updated_at := commit_time\<rparr>"
proof -
  have "Scanner_today_scans_scheduled
          (scanner\<lparr>Scanner_today_scans_scheduled := Scanner_today_scans_scheduled scanner + 1\<rparr>)
        \<noteq> Scanner_today_scans_scheduled scanner"
    by simp
  then have "scanner\<lparr>Scanner_today_scans_scheduled := Scanner_today_scans_scheduled scanner + 1\<rparr>
        \<noteq> scanner"
    by metis
  then show ?thesis by (simp add: flush_Scanner_def)
qed

lemma schedule_scan_scan_missing:
  "fst (schedule_scan isoformat db now commit_time scan_id scanner_id scheduled_time)
     = Inl (ValueError ''CT scan not found'')
   \<longleftrightarrow> filter (\<lambda>r. CTScan_id r = scan_id) (db_ct_scans db) = []"
  by (auto simp: schedule_scan_def scalar_one_or_none_def Let_def
      split: list.splits sum.splits option.splits)

lemma schedule_scan_scanner_missing:
  "fst (schedule_scan isoformat db now commit_time scan_id scanner_id scheduled_time)
     = Inl (ValueError ''Scanner not found'')
   \<longleftrightarrow> length (filter (\<lambda>r. CTScan_id r = scan_id) (db_ct_scans db)) = 1
       \<and> filter (\<lambda>r. Scanner_id r = scanner_id) (db_scanners db) = []"
  by (auto simp: schedule_scan_def scalar_one_or_none_def Let_def
      split: list.splits sum.splits option.splits)

lemma schedule_scan_not_available:
  "fst (schedule_scan isoformat db now commit_time scan_id scanner_id scheduled_time)
     = Inl (ValueError ''Scanner is not available'')
   \<longleftrightarrow> length (filter (\<lambda>r. CTScan_id r = scan_id) (db_ct_scans db)) = 1
       \<and> (\<exists>scanner. filter (\<lambda>r. Scanner_id r = scanner_id) (db_scanners db) = [scanner]
             \<and> Scanner_status scanner \<noteq> AVAILABLE)"
  by (auto simp: schedule_scan_def scalar_one_or_none_def Let_def
      split: list.splits sum.splits option.splits)


lemma filter_singleton_holds: "filter P xs = [x] \<Longrightarrow> P x"
proof -
  assume "filter P xs = [x]"
  then have "x \<in> set (filter P xs)" by simp
  then show "P x" by simp
qed

lemma flush_CTScan_fields:
  "CTScan_status (flush_CTScan commit_time old new) = CTScan_status new"
  "CTScan_scanner_id (flush_CTScan commit_time old new) = CTScan_scanner_id new"
  "CTScan_scheduled_time (flush_CTScan commit_time old new) = CTScan_scheduled_time new"
  by (auto simp: flush_CTScan_def)

lemma schedule_scan_success:
  assumes scans: "filter (\<lambda>r. CTScan_id r = scan_id) (db_ct_scans db) = [scan]"
    and scanners: "filter (\<lambda>r. Scanner_id r = scanner_id) (db_scanners db) = [scanner]"
    and avail: "Scanner_status scanner = AVAILABLE"
  shows "\<exists>summary. fst (schedule_scan isoformat db now commit_time scan_id scanner_id
                           scheduled_time) = Inr summary"
    and "db_scanners (snd (schedule_scan isoformat db now commit_time scan_id scanner_id
                           scheduled_time)) =
           map (\<lambda>r. if Scanner_id r = scanner_id
                     then scanner\<lparr>Scanner_today_scans_scheduled :=
                                    Scanner_today_scans_scheduled scanner + 1,
                                  Scanner_updated_at := commit_time\<rparr>
                     else r) (db_scanners db)"
    and "db_ct_scans (snd (schedule_scan isoformat db now commit_time scan_id scanner_id
                           scheduled_time)) =
           map (\<lambda>r. if CTScan_id r = scan_id
                     then flush_CTScan commit_time scan
                            (scan\<lparr>CTScan_scanner_id := Some scanner_id,
                                  CTScan_scheduled_time :=
                                    Some (case scheduled_time of
                                            None \<Rightarrow> add_minutes now 15 | Some t \<Rightarrow> t),
                                  CTScan_status := SCHEDULED\<rparr>)
                     else r) (db_ct_scans db)"
proof -
  have ids: "CTScan_id scan = scan_id" "Scanner_id scanner = scanner_id"
    using filter_singleton_holds [OF scans] filter_singleton_holds [OF scanners] by simp_all
  show "\<exists>summary. fst (schedule_scan isoformat db now commit_time scan_id scanner_id
                           scheduled_time) = Inr summary"
    unfolding schedule_scan_def scans scanners scalar_one_or_none_def
    by (simp add: avail Let_def)
  show "db_scanners (snd (schedule_scan isoformat db now commit_time scan_id scanner_id
                           scheduled_time)) =
           map (\<lambda>r. if Scanner_id r = scanner_id
                     then scanner\<lparr>Scanner_today_scans_scheduled :=
                                    Scanner_today_scans_scheduled scanner + 1,
                                  Scanner_updated_at := commit_time\<rparr>
                     else r) (db_scanners db)"
    unfolding schedule_scan_def scans scanners scalar_one_or_none_def
    by (simp add: avail Let_def commit_Scanner_def commit_CTScan_def ids
        flush_Scanner_increment)
  show "db_ct_scans (snd (schedule_scan isoformat db now commit_time scan_id scanner_id
                           scheduled_time)) =
           map (\<lambda>r. if CTScan_id r = scan_id
                     then flush_CTScan commit_time scan
                            (scan\<lparr>CTScan_scanner_id := Some scanner_id,
                                  CTScan_scheduled_time :=
                                    Some (case scheduled_time of
                                            None \<Rightarrow> add_minutes now 15 | Some t \<Rightarrow> t),
                                  CTScan_status := SCHEDULED\<rparr>)
                     else r) (db_ct_scans db)"
    unfolding schedule_scan_def scans scanners scalar_one_or_none_def
    by (simp add: avail Let_def commit_Scanner_def commit_CTScan_def ids)
qed

text \<open>
  C2.  \<open>find_available_scanner\<close> never returns a scanner whose
  \<open>today_scans_scheduled\<close> has reached its \<open>daily_capacity\<close>.  \<open>schedule_scan\<close> raises
  "CT scan not found" exactly when no scan has the id, "Scanner not found" exactly when
  the scan exists and no scanner has the id, and "Scanner is not available" exactly when
  both exist and the scanner's status is not available; with both present and the
  scanner available it succeeds whatever the capacity: the scanner's counter is
  incremented, and the scan gets the scanner, the scheduled time and the status
  scheduled.
\<close>

theorem capacity_advisory_in_find_only:
  "let scans = filter (\<lambda>r. CTScan_id r = scan_id) (db_ct_scans db);
       scanners = filter (\<lambda>r. Scanner_id r = scanner_id) (db_scanners db);
       res = schedule_scan isoformat db now commit_time scan_id scanner_id scheduled_time;
       t = (case scheduled_time of None \<Rightarrow> add_minutes now 15 | Some t \<Rightarrow> t)
   in (Scanner_daily_capacity s \<le> Scanner_today_scans_scheduled s \<longrightarrow>
         find_available_scanner db now' duration preferred_type \<noteq> Inr (Some (scanner_to_dict s)))
    \<and> (fst res = Inl (ValueError ''CT scan not found'') \<longleftrightarrow> scans = [])
    \<and> (fst res = Inl (ValueError ''Scanner not found'') \<longleftrightarrow> length scans = 1 \<and> scanners = [])
    \<and> (fst res = Inl (ValueError ''Scanner is not available'') \<longleftrightarrow>
          length scans = 1
          \<and> (\<exists>scanner. scanners = [scanner] \<and> Scanner_status scanner \<noteq> AVAILABLE))
    \<and> (\<forall>scan scanner.
          scans = [scan] \<and> scanners = [scanner] \<and> Scanner_status scanner = AVAILABLE \<longrightarrow>
            (\<exists>summary. fst res = Inr summary)
          \<and> db_scanners (snd res) =
               map (\<lambda>r. if Scanner_id r = scanner_id
                         then scanner\<lparr>Scanner_today_scans_scheduled :=
                                        Scanner_today_scans_scheduled scanner + 1,
                                      Scanner_updated_at := commit_time\<rparr>
                         else r) (db_scanners db)
          \<and> (\<exists>scan'. db_ct_scans (snd res) =
                 map (\<lambda>r. if CTScan_id r = scan_id then scan' else r) (db_ct_scans db)
               \<and> CTScan_scanner_id scan' = Some scanner_id
               \<and> CTScan_scheduled_time scan' = Some t
               \<and> CTScan_status scan' = SCHEDULED))"
proof -
  have "\<exists>scan'. db_ct_scans
              (snd (schedule_scan isoformat db now commit_time scan_id scanner_id scheduled_time)) =
                 map (\<lambda>r. if CTScan_id r = scan_id then scan' else r) (db_ct_scans db)
               \<and> CTScan_scanner_id scan' = Some scanner_id
               \<and> CTScan_scheduled_time scan' =
                   Some (case scheduled_time of None \<Rightarrow> add_minutes now 15 | Some t \<Rightarrow> t)
               \<and> CTScan_status scan' = SCHEDULED"
    if "filter (\<lambda>r. CTScan_id r = scan_id) (db_ct_scans db) = [scan]"
      "filter (\<lambda>r. Scanner_id r = scanner_id) (db_scanners db) = [scanner]"
      "Scanner_status scanner = AVAILABLE" for scan scanner
    using schedule_scan_success(3) [OF that] flush_CTScan_fields
    by (intro exI [of _ "flush_CTScan commit_time scan
                            (scan\<lparr>CTScan_scanner_id := Some scanner_id,
                                  CTScan_scheduled_time := Some (case scheduled_time of None \<Rightarrow> add_minutes now 15 | Some t \<Rightarrow> t),
                                  CTScan_status := SCHEDULED\<rparr>)"]) simp
  then show ?thesis
    unfolding Let_def
    using find_never_returns_full_scanner schedule_scan_scan_missing
      schedule_scan_scanner_missing schedule_scan_not_available
      schedule_scan_success(1,2)
    by (intro conjI allI impI; (elim conjE)?) blast+
qed


theorem capacity_advisory_in_find_only_witness:
  "Scanner_daily_capacity sample_scanner \<le> Scanner_today_scans_scheduled sample_scanner
   \<and> find_available_scanner sample_db 43200000000 30 None
         \<noteq> Inr (Some (scanner_to_dict sample_scanner))
   \<and> (\<exists>summary. fst (schedule_scan (\<lambda>t. ''T'') sample_db 43200000000 43200000001
                         ''scan-1'' ''ct-01'' None) = Inr summary)
   \<and> map Scanner_today_scans_scheduled
         (db_scanners (snd (schedule_scan (\<lambda>t. ''T'') sample_db 43200000000 43200000001
                              ''scan-1'' ''ct-01'' None))) = [2]
   \<and> map Scanner_daily_capacity
         (db_scanners (snd (schedule_scan (\<lambda>t. ''T'') sample_db 43200000000 43200000001
                              ''scan-1'' ''ct-01'' None))) = [1]"
proof -
  have scans: "filter (\<lambda>r. CTScan_id r = ''scan-1'') (db_ct_scans sample_db) = [sample_scan]"
    by (simp add: sample_db_def sample_scan_def)
  have scanners: "filter (\<lambda>r. Scanner_id r = ''ct-01'') (db_scanners sample_db) = [sample_scanner]"
    by (simp add: sample_db_def sample_scanner_def)
  have full: "Scanner_daily_capacity sample_scanner \<le> Scanner_today_scans_scheduled sample_scanner"
    and avail: "Scanner_status sample_scanner = AVAILABLE"
    by (simp_all add: sample_scanner_def)
  note t = capacity_advisory_in_find_only [where s = sample_scanner and db = sample_db
      and now' = 43200000000 and duration = 30 and preferred_type = None
      and isoformat = "\<lambda>t. ''T''" and now = 43200000000 and commit_time = 43200000001
      and scan_id = "''scan-1''" and scanner_id = "''ct-01''" and scheduled_time = None,
      unfolded Let_def scans scanners]
  from t full have 1: "find_available_scanner sample_db 43200000000 30 None
         \<noteq> Inr (Some (scanner_to_dict sample_scanner))"
    by blast
  from t avail have 2: "\<exists>summary. fst (schedule_scan (\<lambda>t. ''T'') sample_db 43200000000 43200000001
                         ''scan-1'' ''ct-01'' None) = Inr summary"
    by blast
  from t avail have 3: "db_scanners (snd (schedule_scan (\<lambda>t. ''T'') sample_db 43200000000
                           43200000001 ''scan-1'' ''ct-01'' None)) =
               map (\<lambda>r. if Scanner_id r = ''ct-01''
                         then sample_scanner\<lparr>Scanner_today_scans_scheduled :=
                                        Scanner_today_scans_scheduled sample_scanner + 1,
                                      Scanner_updated_at := 43200000001\<rparr>
                         else r) (db_scanners sample_db)"
    by blast
  from full 1 2 show ?thesis
    unfolding 3 by (simp add: sample_db_def sample_scanner_def)
qed

section \<open>Status patch: timestamps and frame\<close>

lemma flush_patch_status:
  "\<exists>u. flush_CTScan commit_time scan (patch_status scan new_status stamp updated)
        = (patch_status scan new_status stamp updated)\<lparr>CTScan_updated_at := u\<rparr>"
proof (cases "patch_status scan new_status stamp updated = scan")
  case True
  then have "flush_CTScan commit_time scan (patch_status scan new_status stamp updated)
        = (patch_status scan new_status stamp updated)\<lparr>CTScan_updated_at := CTScan_updated_at scan\<rparr>"
    by (simp add: flush_CTScan_def)
  then show ?thesis by blast
next
  case False
  show ?thesis
  proof (cases "CTScan_updated_at (patch_status scan new_status stamp updated) = CTScan_updated_at scan")
    case True
    with False have "flush_CTScan commit_time scan (patch_status scan new_status stamp updated)
        = (patch_status scan new_status stamp updated)\<lparr>CTScan_updated_at := commit_time\<rparr>"
      by (simp add: flush_CTScan_def)
    then show ?thesis by blast
  next
    case f: False
    with False have "flush_CTScan commit_time scan (patch_status scan new_status stamp updated)
        = (patch_status scan new_status stamp updated)
            \<lparr>CTScan_updated_at := CTScan_updated_at (patch_status scan new_status stamp updated)\<rparr>"
      by (simp add: flush_CTScan_def)
    then show ?thesis by blast
  qed
qed

lemma patch_status_fields:
  "CTScan_status ((patch_status scan new_status stamp updated)\<lparr>CTScan_updated_at := u\<rparr>) = new_status"
  "CTScan_started_time ((patch_status scan new_status stamp updated)\<lparr>CTScan_updated_at := u\<rparr>)
     = (if new_status = IN_PROGRESS then Some stamp else CTScan_started_time scan)"
  "CTScan_completed_time ((patch_status scan new_status stamp updated)\<lparr>CTScan_updated_at := u\<rparr>)
     = (if new_status = COMPLETED then Some stamp else CTScan_completed_time scan)"
  "CTScan_reported_time ((patch_status scan new_status stamp updated)\<lparr>CTScan_updated_at := u\<rparr>)
     = (if new_status = REPORTED then Some stamp else CTScan_reported_time scan)"
  by (simp_all add: patch_status_def Let_def)

lemma patch_status_frame:
  "(patch_status scan new_status stamp updated)
      \<lparr>CTScan_updated_at := u, CTScan_status := st, CTScan_started_time := a,
       CTScan_completed_time := b, CTScan_reported_time := c, CTScan_updated_at := v\<rparr>
   = scan\<lparr>CTScan_status := st, CTScan_started_time := a,
          CTScan_completed_time := b, CTScan_reported_time := c, CTScan_updated_at := v\<rparr>"
  by (simp add: patch_status_def Let_def)

text \<open>
  C7.  For an authenticated call on an existing scan, the route
  \<open>PATCH /{scan_id}/status\<close> rewrites exactly that scan's row and answers with its
  rendering.  The row gets the new status; \<open>started_time\<close> is set to the clock reading
  for "in_progress", \<open>completed_time\<close> for "completed", \<open>reported_time\<close> for "reported",
  and each of the three keeps its previous value (absent if it was absent) for every
  other status.  Apart from the status, these three timestamps and \<open>updated_at\<close>, no
  field of the scan changes.
\<close>

theorem status_patch_sets_matching_timestamp:
  assumes "get_current_user_id decode_access_token credentials = Inr user_id"
    and "filter (\<lambda>r. CTScan_id r = scan_id) (db_ct_scans db) = [scan]"
  shows "\<exists>scan'.
      update_scan_status decode_access_token db stamp updated commit_time credentials scan_id new_status
        = (Inr (scan_to_response scan'),
           db\<lparr>db_ct_scans := map (\<lambda>r. if CTScan_id r = scan_id then scan' else r)
                                 (db_ct_scans db)\<rparr>)
    \<and> CTScan_status scan' = new_status
    \<and> CTScan_started_time scan'
        = (if new_status = IN_PROGRESS then Some stamp else CTScan_started_time scan)
    \<and> CTScan_completed_time scan'
        = (if new_status = COMPLETED then Some stamp else CTScan_completed_time scan)
    \<and> CTScan_reported_time scan'
        = (if new_status = REPORTED then Some stamp else CTScan_reported_time scan)
    \<and> scan'\<lparr>CTScan_status := ORDERED, CTScan_started_time := None,
              CTScan_completed_time := None, CTScan_reported_time := None,
              CTScan_updated_at := 0\<rparr>
        = scan\<lparr>CTScan_status := ORDERED, CTScan_started_time := None,
               CTScan_completed_time := None, CTScan_reported_time := None,
               CTScan_updated_at := 0\<rparr>"
proof -
  have id: "CTScan_id scan = scan_id"
  proof -
    from assms(2) have "scan \<in> set (filter (\<lambda>r. CTScan_id r = scan_id) (db_ct_scans db))"
      by simp
    then show ?thesis by simp
  qed
  obtain u where u: "flush_CTScan commit_time scan (patch_status scan new_status stamp updated)
        = (patch_status scan new_status stamp updated)\<lparr>CTScan_updated_at := u\<rparr>"
    using flush_patch_status by blast
  let ?scan' = "(patch_status scan new_status stamp updated)\<lparr>CTScan_updated_at := u\<rparr>"
  have run: "update_scan_status decode_access_token db stamp updated commit_time credentials
               scan_id new_status
        = (Inr (scan_to_response ?scan'),
           db\<lparr>db_ct_scans := map (\<lambda>r. if CTScan_id r = scan_id then ?scan' else r)
                                 (db_ct_scans db)\<rparr>)"
    unfolding update_scan_status_def assms scalar_one_or_none_def
    by (simp add: Let_def commit_CTScan_def id u)
  show ?thesis
    using run patch_status_fields [where scan = scan and new_status = new_status
        and stamp = stamp and updated = updated and u = u]
      patch_status_frame [where scan = scan and new_status = new_status
        and stamp = stamp and updated = updated and u = u and st = ORDERED and a = None
        and b = None and c = None and v = 0]
    by (intro exI [of _ ?scan']) (simp only: simp_thms)
qed

theorem status_patch_sets_matching_timestamp_witness:
  "(\<exists>r. fst (update_scan_status sample_decode sample_db 500 501 502 (Some ''token-1'') ''scan-1''
              IN_PROGRESS) = Inr r)
   \<and> map CTScan_started_time
       (db_ct_scans (snd (update_scan_status sample_decode sample_db 500 501 502
                            (Some ''token-1'') ''scan-1'' IN_PROGRESS))) = [Some 500]
   \<and> map CTScan_completed_time
       (db_ct_scans (snd (update_scan_status sample_decode sample_db 500 501 502
                            (Some ''token-1'') ''scan-1'' IN_PROGRESS))) = [None]
   \<and> map CTScan_reported_time
       (db_ct_scans (snd (update_scan_status sample_decode sample_db 500 501 502
                            (Some ''token-1'') ''scan-1'' IN_PROGRESS))) = [None]
   \<and> map CTScan_status
       (db_ct_scans (snd (update_scan_status sample_decode sample_db 500 501 502
                            (Some ''token-1'') ''scan-1'' IN_PROGRESS))) = [IN_PROGRESS]"
proof -
  have auth: "get_current_user_id sample_decode (Some ''token-1'') = Inr (PStr ''u-1'')"
    by (simp add: get_current_user_id_def sample_decode_def dict_get_def Let_def)
  have scans: "filter (\<lambda>r. CTScan_id r = ''scan-1'') (db_ct_scans sample_db) = [sample_scan]"
    by (simp add: sample_db_def sample_scan_def)
  from status_patch_sets_matching_timestamp [OF auth scans, where stamp = 500
      and updated = 501 and commit_time = 502 and new_status = IN_PROGRESS]
  obtain scan' where s:
    "update_scan_status sample_decode sample_db 500 501 502 (Some ''token-1'') ''scan-1''
       IN_PROGRESS
        = (Inr (scan_to_response scan'),
           sample_db\<lparr>db_ct_scans := map (\<lambda>r. if CTScan_id r = ''scan-1'' then scan' else r)
                                 (db_ct_scans sample_db)\<rparr>)"
    "CTScan_status scan' = IN_PROGRESS"
    "CTScan_started_time scan' = Some 500"
    "CTScan_completed_time scan' = CTScan_completed_time sample_scan"
    "CTScan_reported_time scan' = CTScan_reported_time sample_scan"
    by auto
  have rows: "map (\<lambda>r. if CTScan_id r = ''scan-1'' then scan' else r) (db_ct_scans sample_db)
                = [scan']"
    by (simp add: sample_db_def sample_scan_def)
  show ?thesis
    unfolding s(1) by (simp add: rows s sample_scan_def)
qed

section \<open>Answering from the FAQ table\<close>

lemma relevant_loop_filter:
  "relevant_loop faqs q =
     filter (\<lambda>faq.
        (\<exists>k \<in> set (case FAQ_keywords faq of
                        None \<Rightarrow> []
                      | Some s \<Rightarrow> if s = [] then []
                                 else map (\<lambda>k. py_lower (py_strip k)) (py_split_on CHR '','' s)).
            \<exists>ps ss. q = ps @ k @ ss)
        \<or> set (py_split q) \<inter> set (py_split (py_lower (FAQ_question faq))) \<noteq> {}) faqs"
proof (induction faqs)
  case Nil
  show ?case by simp
next
  case (Cons faq faqs)
  have kw: "str_truthy (FAQ_keywords faq) \<and> list_ex (\<lambda>k. py_in k q) (faq_keywords faq)
        \<longleftrightarrow> (\<exists>k \<in> set (case FAQ_keywords faq of
                        None \<Rightarrow> []
                      | Some s \<Rightarrow> if s = [] then []
                                 else map (\<lambda>k. py_lower (py_strip k)) (py_split_on CHR '','' s)).
            \<exists>ps ss. q = ps @ k @ ss)"
    by (cases "FAQ_keywords faq") (auto simp: faq_keywords_def list_ex_iff py_in_iff)
  have words: "filter (\<lambda>w. w \<in> set (remdups (py_split (py_lower (FAQ_question faq)))))
                  (remdups (py_split q)) \<noteq> []
        \<longleftrightarrow> set (py_split q) \<inter> set (py_split (py_lower (FAQ_question faq))) \<noteq> {}"
    by (auto simp: filter_empty_conv)
  show ?case
    unfolding relevant_loop.simps Let_def kw words Cons.IH
    by simp
qed

lemma flush_FAQ_increment:
  "flush_FAQ commit_time faq (faq\<lparr>FAQ_view_count := FAQ_view_count faq + 1\<rparr>)
   = faq\<lparr>FAQ_view_count := FAQ_view_count faq + 1, FAQ_updated_at := commit_time\<rparr>"
proof -
  have "FAQ_view_count (faq\<lparr>FAQ_view_count := FAQ_view_count faq + 1\<rparr>) \<noteq> FAQ_view_count faq"
    by simp
  then have "faq\<lparr>FAQ_view_count := FAQ_view_count faq + 1\<rparr> \<noteq> faq"
    by metis
  then show ?thesis by (simp add: flush_FAQ_def)
qed

lemma answer_faq_none:
  assumes "relevant_loop (filter FAQ_is_active (db_faqs db)) (py_lower question) = []"
  shows "answer_faq db commit_time question patient_id =
     (map_of
        [(''answer'', PStr (''I understand you have a question about your CT brain scan. ''
            @ ''Please contact our staff or speak with your healthcare provider ''
            @ ''for more specific information about your procedure.'')),
         (''category'', PStr ''general''),
         (''faq_id'', PNone),
         (''confidence'', PStr ''low'')], db)"
proof -
  have active: "filter (\<lambda>r. FAQ_is_active r = True) (db_faqs db) = filter FAQ_is_active (db_faqs db)"
    by simp
  show ?thesis
    unfolding answer_faq_def Let_def active assms
    by (simp add: generate_faq_answer_def)
qed

lemma answer_faq_some:
  assumes "relevant_loop (filter FAQ_is_active (db_faqs db)) (py_lower question)
             = best # others"
  shows "answer_faq db commit_time question patient_id =
     (map_of
        [(''answer'', PStr (FAQ_answer best)),
         (''category'', opt_str (FAQ_category best)),
         (''faq_id'', PStr (FAQ_id best)),
         (''confidence'', PStr (if others = [] then ''high'' else ''medium''))],
      db\<lparr>db_faqs :=
           map (\<lambda>r. if FAQ_id r = FAQ_id best
                     then best\<lparr>FAQ_view_count := FAQ_view_count best + 1,
                               FAQ_updated_at := commit_time\<rparr>
                     else r) (db_faqs db)\<rparr>)"
proof -
  have active: "filter (\<lambda>r. FAQ_is_active r = True) (db_faqs db) = filter FAQ_is_active (db_faqs db)"
    by simp
  show ?thesis
    unfolding answer_faq_def Let_def active assms
    by (simp add: commit_FAQ_def flush_FAQ_increment)
qed

text \<open>
  C9.  An active FAQ is relevant to a question when one of its keywords (the
  comma-separated pieces of its keyword text, trimmed and lower-cased; none when the
  text is absent or empty) is a substring of the lower-cased question, or when the
  lower-cased question and the lower-cased question text of the FAQ share a word.
  With no relevant FAQ the answer is the fixed text with category "general", no FAQ id
  and confidence "low", and nothing is written.  Otherwise the first relevant FAQ in
  storage order is answered from, with confidence "high" when it is the only relevant
  one and "medium" otherwise, and its view count is incremented by one.
\<close>

theorem faq_first_relevant_match:
  "let q = py_lower question;
       keywords = (\<lambda>faq. case FAQ_keywords faq of
                      None \<Rightarrow> []
                    | Some s \<Rightarrow> if s = [] then []
                               else map (\<lambda>k. py_lower (py_strip k)) (py_split_on CHR '','' s));
       relevant = (\<lambda>faq. (\<exists>k \<in> set (keywords faq). \<exists>ps ss. q = ps @ k @ ss)
                     \<or> set (py_split q) \<inter> set (py_split (py_lower (FAQ_question faq))) \<noteq> {});
       found = filter relevant (filter FAQ_is_active (db_faqs db));
       res = answer_faq db commit_time question patient_id
   in (found = [] \<longrightarrow>
         res = (map_of
                  [(''answer'', PStr (''I understand you have a question about your CT brain scan. ''
                      @ ''Please contact our staff or speak with your healthcare provider ''
                      @ ''for more specific information about your procedure.'')),
                   (''category'', PStr ''general''),
                   (''faq_id'', PNone),
                   (''confidence'', PStr ''low'')], db))
    \<and> (\<forall>best others. found = best # others \<longrightarrow>
         res = (map_of
                  [(''answer'', PStr (FAQ_answer best)),
                   (''category'', opt_str (FAQ_category best)),
                   (''faq_id'', PStr (FAQ_id best)),
                   (''confidence'', PStr (if others = [] then ''high'' else ''medium''))],
                db\<lparr>db_faqs :=
                     map (\<lambda>r. if FAQ_id r = FAQ_id best
                               then best\<lparr>FAQ_view_count := FAQ_view_count best + 1,
                                         FAQ_updated_at := commit_time\<rparr>
                               else r) (db_faqs db)\<rparr>))"
proof -
  let ?found = "relevant_loop (filter FAQ_is_active (db_faqs db)) (py_lower question)"
  have 1: "?found = [] \<longrightarrow>
         answer_faq db commit_time question patient_id
           = (map_of
                  [(''answer'', PStr (''I understand you have a question about your CT brain scan. ''
                      @ ''Please contact our staff or speak with your healthcare provider ''
                      @ ''for more specific information about your procedure.'')),
                   (''category'', PStr ''general''),
                   (''faq_id'', PNone),
                   (''confidence'', PStr ''low'')], db)"
    by (rule impI) (rule answer_faq_none)
  have 2: "\<forall>best others. ?found = best # others \<longrightarrow>
         answer_faq db commit_time question patient_id
           = (map_of
                  [(''answer'', PStr (FAQ_answer best)),
                   (''category'', opt_str (FAQ_category best)),
                   (''faq_id'', PStr (FAQ_id best)),
                   (''confidence'', PStr (if others = [] then ''high'' else ''medium''))],
                db\<lparr>db_faqs :=
                     map (\<lambda>r. if FAQ_id r = FAQ_id best
                               then best\<lparr>FAQ_view_count := FAQ_view_count best + 1,
                                         FAQ_updated_at := commit_time\<rparr>
                               else r) (db_faqs db)\<rparr>)"
    by (intro allI impI) (rule answer_faq_some)
  show ?thesis
    unfolding Let_def relevant_loop_filter [symmetric]
    using 1 2 by (rule conjI)
qed


theorem faq_first_relevant_match_witness:
  "fst (answer_faq sample_faq_db 99 ''Is the DYE safe'' None) ''faq_id'' = Some (PStr ''faq-1'')
   \<and> fst (answer_faq sample_faq_db 99 ''Is the DYE safe'' None) ''confidence''
       = Some (PStr ''medium'')
   \<and> map FAQ_view_count (db_faqs (snd (answer_faq sample_faq_db 99 ''Is the DYE safe'' None)))
       = [1, 5]
   \<and> fst (answer_faq sample_faq_db 99 ''Parking?'' None) ''faq_id'' = Some PNone
   \<and> fst (answer_faq sample_faq_db 99 ''Parking?'' None) ''confidence'' = Some (PStr ''low'')
   \<and> snd (answer_faq sample_faq_db 99 ''Parking?'' None) = sample_faq_db"
proof -
  have active: "filter FAQ_is_active (db_faqs sample_faq_db) = [sample_faq1, sample_faq2]"
    by (simp add: sample_faq_db_def sample_faq1_def sample_faq2_def)
  have found: "relevant_loop [sample_faq1, sample_faq2] (py_lower ''Is the DYE safe'')
                 = [sample_faq1, sample_faq2]"
    by code_simp
  have no_match: "relevant_loop [sample_faq1, sample_faq2] (py_lower ''Parking?'') = []"
    by code_simp
  note t1 = faq_first_relevant_match [where db = sample_faq_db and commit_time = 99
      and question = "''Is the DYE safe''" and patient_id = None,
      unfolded Let_def relevant_loop_filter [symmetric] active]
  note t2 = faq_first_relevant_match [where db = sample_faq_db and commit_time = 99
      and question = "''Parking?''" and patient_id = None,
      unfolded Let_def relevant_loop_filter [symmetric] active]
  note 1 = t1 [THEN conjunct2, THEN spec, THEN spec, THEN mp, OF found]
  note 2 = t2 [THEN conjunct1, THEN mp, OF no_match]
  have a: "fst (answer_faq sample_faq_db 99 ''Is the DYE safe'' None) ''faq_id''
             = Some (PStr ''faq-1'')"
    unfolding 1 by (simp add: sample_faq1_def)
  have b: "fst (answer_faq sample_faq_db 99 ''Is the DYE safe'' None) ''confidence''
       = Some (PStr ''medium'')"
    unfolding 1 by simp
  have c: "map FAQ_view_count (db_faqs (snd (answer_faq sample_faq_db 99 ''Is the DYE safe'' None)))
       = [1, 5]"
    unfolding 1 by (simp add: sample_faq_db_def sample_faq1_def sample_faq2_def)
  have d: "fst (answer_faq sample_faq_db 99 ''Parking?'' None) ''faq_id'' = Some PNone"
    unfolding 2 by simp
  have e: "fst (answer_faq sample_faq_db 99 ''Parking?'' None) ''confidence'' = Some (PStr ''low'')"
    unfolding 2 by simp
  have f: "snd (answer_faq sample_faq_db 99 ''Parking?'' None) = sample_faq_db"
    unfolding 2 by simp
  from a b c d e f show ?thesis by (intro conjI)
qed

section \<open>Anxiety assessment\<close>

lemma py_int_str_empty: "py_int_str [] = Inl ''invalid literal for int()''"
  by (simp add: py_int_str_def py_int_strip_def)

lemma falsy_int_is_zero: "\<not> truthy v \<Longrightarrow> py_int v = Inr i \<Longrightarrow> i = 0"
  by (cases v) (auto simp: py_int_str_empty)

lemma add_response_value:
  assumes "\<forall>v. responses k = Some v \<and> truthy v \<longrightarrow> (\<exists>i. py_int v = Inr i)"
  shows "add_response responses k score =
           Inr (score + (case responses k of
                           None \<Rightarrow> 0
                         | Some v \<Rightarrow> (case py_int v of Inr i \<Rightarrow> i | Inl e \<Rightarrow> 0)))"
proof (cases "responses k")
  case None
  then show ?thesis by (simp add: add_response_def dict_get_def)
next
  case (Some v)
  show ?thesis
  proof (cases "truthy v")
    case True
    with assms Some obtain i where "py_int v = Inr i" by blast
    with Some True show ?thesis
      by (simp add: add_response_def dict_get_def dict_item_def)
  next
    case False
    have "(case py_int v of Inr i \<Rightarrow> i | Inl e \<Rightarrow> 0) = 0"
      using falsy_int_is_zero [OF False] by (cases "py_int v") auto
    with Some False show ?thesis
      by (simp add: add_response_def dict_get_def)
  qed
qed

lemma negative_experience:
  "(truthy (dict_get responses ''previous_ct_experience'')
      \<and> dict_get responses ''previous_ct_experience'' = PStr ''negative'')
   \<longleftrightarrow> responses ''previous_ct_experience'' = Some (PStr ''negative'')"
  by (cases "responses ''previous_ct_experience''") (auto simp: dict_get_def)

lemma flush_Patient_level:
  "\<exists>u. flush_Patient commit_time patient (patient\<lparr>Patient_anxiety_level := level\<rparr>)
        = patient\<lparr>Patient_anxiety_level := level, Patient_updated_at := u\<rparr>"
proof (cases "patient\<lparr>Patient_anxiety_level := level\<rparr> = patient")
  case True
  then have "flush_Patient commit_time patient (patient\<lparr>Patient_anxiety_level := level\<rparr>)
        = patient\<lparr>Patient_anxiety_level := level, Patient_updated_at := Patient_updated_at patient\<rparr>"
    by (simp add: flush_Patient_def)
  then show ?thesis by blast
next
  case False
  then have "flush_Patient commit_time patient (patient\<lparr>Patient_anxiety_level := level\<rparr>)
        = patient\<lparr>Patient_anxiety_level := level, Patient_updated_at := commit_time\<rparr>"
    by (simp add: flush_Patient_def)
  then show ?thesis by blast
qed

lemma assess_anxiety_not_found:
  "filter (\<lambda>r. Patient_id r = patient_id) (db_patients db) = [] \<Longrightarrow>
     assess_anxiety db commit_time patient_id responses
       = (Inl (ValueError ''Patient not found''), db)"
  by (simp add: assess_anxiety_def scalar_one_or_none_def)


lemma assess_anxiety_found:
  assumes rows: "filter (\<lambda>r. Patient_id r = patient_id) (db_patients db) = [patient]"
    and a1: "add_response responses ''nervous'' 0 = Inr s1"
    and a2: "add_response responses ''worrying'' s1 = Inr s2"
    and a3: "add_response responses ''relaxation_difficulty'' s2 = Inr s3"
    and sc: "score = (if responses ''previous_ct_experience'' = Some (PStr ''negative'')
                      then s3 + 2 else s3)"
    and lv: "level = (if score \<le> 2 then A_NONE else if score \<le> 5 then A_MILD
                      else if score \<le> 8 then A_MODERATE else A_SEVERE)"
  shows "\<exists>u. assess_anxiety db commit_time patient_id responses =
                 (Inr (map_of
                    [(''patient_id'', PStr patient_id),
                     (''anxiety_level'', PStr (AnxietyLevel_value level)),
                     (''score'', PInt score),
                     (''recommendations'',
                        PList (map PStr (get_anxiety_recommendations level)))]),
                  db\<lparr>db_patients :=
                       map (\<lambda>r. if Patient_id r = patient_id
                                 then patient\<lparr>Patient_anxiety_level := level,
                                              Patient_updated_at := u\<rparr>
                                 else r) (db_patients db)\<rparr>)"
proof -
  have id: "Patient_id patient = patient_id"
  proof -
    from rows have "patient \<in> set (filter (\<lambda>r. Patient_id r = patient_id) (db_patients db))"
      by simp
    then show ?thesis by simp
  qed
  obtain u where u: "flush_Patient commit_time patient
                       (patient\<lparr>Patient_anxiety_level := level\<rparr>)
        = patient\<lparr>Patient_anxiety_level := level, Patient_updated_at := u\<rparr>"
    using flush_Patient_level by blast
  have "assess_anxiety db commit_time patient_id responses =
                 (Inr (map_of
                    [(''patient_id'', PStr patient_id),
                     (''anxiety_level'', PStr (AnxietyLevel_value level)),
                     (''score'', PInt score),
                     (''recommendations'',
                        PList (map PStr (get_anxiety_recommendations level)))]),
                  db\<lparr>db_patients :=
                       map (\<lambda>r. if Patient_id r = patient_id
                                 then patient\<lparr>Patient_anxiety_level := level,
                                              Patient_updated_at := u\<rparr>
                                 else r) (db_patients db)\<rparr>)"
    by (simp only: assess_anxiety_def rows scalar_one_or_none_def list.case sum.case
        option.case a1 a2 a3 negative_experience Let_def sc [symmetric] lv [symmetric]
        commit_Patient_def id u)
  then show ?thesis by (rule exI)
qed

text \<open>
  C8, as amended.  \<open>assess_anxiety\<close> raises "Patient not found" when no patient has the
  id.  Otherwise, when every value present and true under "nervous", "worrying" and
  "relaxation_difficulty" converts under \<open>int()\<close>, the score is the sum of those
  conversions (an integer as it is, a fractional number truncated towards zero; an
  absent or false value counting 0) plus 2 when "previous_ct_experience" is "negative";
  the level is none up to 2, mild up to 5, moderate up to 8 and severe above; the level
  is written onto the patient and returned with the score and the recommendations of
  that level.
\<close>

theorem anxiety_score_is_sum_of_int_conversions:
  "let contrib = (\<lambda>k. case responses k of
                        None \<Rightarrow> 0
                      | Some v \<Rightarrow> (case py_int v of Inr i \<Rightarrow> i | Inl e \<Rightarrow> 0));
       score = contrib ''nervous'' + contrib ''worrying'' + contrib ''relaxation_difficulty''
               + (if responses ''previous_ct_experience'' = Some (PStr ''negative'')
                  then 2 else 0);
       level = (if score \<le> 2 then A_NONE else if score \<le> 5 then A_MILD
                else if score \<le> 8 then A_MODERATE else A_SEVERE);
       rows = filter (\<lambda>r. Patient_id r = patient_id) (db_patients db);
       res = assess_anxiety db commit_time patient_id responses
   in (rows = [] \<longrightarrow> res = (Inl (ValueError ''Patient not found''), db))
    \<and> (\<forall>patient.
          rows = [patient]
          \<and> (\<forall>k \<in> {''nervous'', ''worrying'', ''relaxation_difficulty''}.
                \<forall>v. responses k = Some v \<and> truthy v \<longrightarrow> (\<exists>i. py_int v = Inr i))
          \<longrightarrow> (\<exists>u. res =
                 (Inr (map_of
                    [(''patient_id'', PStr patient_id),
                     (''anxiety_level'', PStr (AnxietyLevel_value level)),
                     (''score'', PInt score),
                     (''recommendations'',
                        PList (map PStr (get_anxiety_recommendations level)))]),
                  db\<lparr>db_patients :=
                       map (\<lambda>r. if Patient_id r = patient_id
                                 then patient\<lparr>Patient_anxiety_level := level,
                                              Patient_updated_at := u\<rparr>
                                 else r) (db_patients db)\<rparr>)))"
proof -
  let ?contrib = "\<lambda>k. case responses k of
                        None \<Rightarrow> 0
                      | Some v \<Rightarrow> (case py_int v of Inr i \<Rightarrow> i | Inl e \<Rightarrow> 0)"
  define score where "score = ?contrib ''nervous'' + ?contrib ''worrying''
               + ?contrib ''relaxation_difficulty''
               + (if responses ''previous_ct_experience'' = Some (PStr ''negative'')
                  then 2 else 0)"
  define level where "level = (if score \<le> 2 then A_NONE else if score \<le> 5 then A_MILD
                else if score \<le> 8 then A_MODERATE else A_SEVERE)"
  have found: "\<exists>u. assess_anxiety db commit_time patient_id responses =
                 (Inr (map_of
                    [(''patient_id'', PStr patient_id),
                     (''anxiety_level'', PStr (AnxietyLevel_value level)),
                     (''score'', PInt score),
                     (''recommendations'',
                        PList (map PStr (get_anxiety_recommendations level)))]),
                  db\<lparr>db_patients :=
                       map (\<lambda>r. if Patient_id r = patient_id
                                 then patient\<lparr>Patient_anxiety_level := level,
                                              Patient_updated_at := u\<rparr>
                                 else r) (db_patients db)\<rparr>)"
    if rows: "filter (\<lambda>r. Patient_id r = patient_id) (db_patients db) = [patient]"
      and conv: "\<forall>k \<in> {''nervous'', ''worrying'', ''relaxation_difficulty''}.
                \<forall>v. responses k = Some v \<and> truthy v \<longrightarrow> (\<exists>i. py_int v = Inr i)"
    for patient
  proof -
    have c1: "\<forall>v. responses ''nervous'' = Some v \<and> truthy v \<longrightarrow> (\<exists>i. py_int v = Inr i)"
      and c2: "\<forall>v. responses ''worrying'' = Some v \<and> truthy v \<longrightarrow> (\<exists>i. py_int v = Inr i)"
      and c3: "\<forall>v. responses ''relaxation_difficulty'' = Some v \<and> truthy v
                 \<longrightarrow> (\<exists>i. py_int v = Inr i)"
      using conv by blast+
    note a1 = add_response_value [where responses = responses and k = "''nervous''"
        and score = 0, OF c1]
    note a2 = add_response_value [where responses = responses and k = "''worrying''"
        and score = "0 + ?contrib ''nervous''", OF c2]
    note a3 = add_response_value [where responses = responses
        and k = "''relaxation_difficulty''"
        and score = "0 + ?contrib ''nervous'' + ?contrib ''worrying''", OF c3]
    have sc: "score = (if responses ''previous_ct_experience'' = Some (PStr ''negative'')
                       then (0 + ?contrib ''nervous'' + ?contrib ''worrying''
                             + ?contrib ''relaxation_difficulty'') + 2
                       else (0 + ?contrib ''nervous'' + ?contrib ''worrying''
                             + ?contrib ''relaxation_difficulty''))"
      unfolding score_def by simp
    show ?thesis
      by (rule assess_anxiety_found [OF rows a1 a2 a3 sc level_def])
  qed
  have main: "(filter (\<lambda>r. Patient_id r = patient_id) (db_patients db) = [] \<longrightarrow>
        assess_anxiety db commit_time patient_id responses
          = (Inl (ValueError ''Patient not found''), db))
    \<and> (\<forall>patient.
          filter (\<lambda>r. Patient_id r = patient_id) (db_patients db) = [patient]
          \<and> (\<forall>k \<in> {''nervous'', ''worrying'', ''relaxation_difficulty''}.
                \<forall>v. responses k = Some v \<and> truthy v \<longrightarrow> (\<exists>i. py_int v = Inr i))
          \<longrightarrow> (\<exists>u. assess_anxiety db commit_time patient_id responses =
                 (Inr (map_of
                    [(''patient_id'', PStr patient_id),
                     (''anxiety_level'', PStr (AnxietyLevel_value level)),
                     (''score'', PInt score),
                     (''recommendations'',
                        PList (map PStr (get_anxiety_recommendations level)))]),
                  db\<lparr>db_patients :=
                       map (\<lambda>r. if Patient_id r = patient_id
                                 then patient\<lparr>Patient_anxiety_level := level,
                                              Patient_updated_at := u\<rparr>
                                 else r) (db_patients db)\<rparr>)))"
  proof (intro conjI allI impI)
    assume "filter (\<lambda>r. Patient_id r = patient_id) (db_patients db) = []"
    then show "assess_anxiety db commit_time patient_id responses
          = (Inl (ValueError ''Patient not found''), db)"
      by (rule assess_anxiety_not_found)
  next
    fix patient
    assume "filter (\<lambda>r. Patient_id r = patient_id) (db_patients db) = [patient]
          \<and> (\<forall>k \<in> {''nervous'', ''worrying'', ''relaxation_difficulty''}.
                \<forall>v. responses k = Some v \<and> truthy v \<longrightarrow> (\<exists>i. py_int v = Inr i))"
    then show "\<exists>u. assess_anxiety db commit_time patient_id responses =
                 (Inr (map_of
                    [(''patient_id'', PStr patient_id),
                     (''anxiety_level'', PStr (AnxietyLevel_value level)),
                     (''score'', PInt score),
                     (''recommendations'',
                        PList (map PStr (get_anxiety_recommendations level)))]),
                  db\<lparr>db_patients :=
                       map (\<lambda>r. if Patient_id r = patient_id
                                 then patient\<lparr>Patient_anxiety_level := level,
                                              Patient_updated_at := u\<rparr>
                                 else r) (db_patients db)\<rparr>)"
      using found by (elim conjE)
  qed
  show ?thesis
    unfolding Let_def
    using main unfolding level_def score_def .
qed


theorem anxiety_score_is_sum_of_int_conversions_witness:
  "(\<exists>summary.
       fst (assess_anxiety sample_patient_db 99 ''p-1''
              [''nervous'' \<mapsto> PInt 3, ''worrying'' \<mapsto> PFloat (5 / 2),
               ''previous_ct_experience'' \<mapsto> PStr ''negative'']) = Inr summary
       \<and> summary ''score'' = Some (PInt 7)
       \<and> summary ''anxiety_level'' = Some (PStr ''moderate''))
   \<and> map Patient_anxiety_level
         (db_patients (snd (assess_anxiety sample_patient_db 99 ''p-1''
              [''nervous'' \<mapsto> PInt 3, ''worrying'' \<mapsto> PFloat (5 / 2),
               ''previous_ct_experience'' \<mapsto> PStr ''negative'']))) = [A_MODERATE]"
proof -
  let ?r = "[''nervous'' \<mapsto> PInt 3, ''worrying'' \<mapsto> PFloat (5 / 2),
             ''previous_ct_experience'' \<mapsto> PStr ''negative'']"
  have rows: "filter (\<lambda>r. Patient_id r = ''p-1'') (db_patients sample_patient_db)
                = [sample_patient]"
    by (simp add: sample_patient_db_def sample_patient_def)
  have conv: "\<forall>k \<in> {''nervous'', ''worrying'', ''relaxation_difficulty''}.
                \<forall>v. ?r k = Some v \<and> truthy v \<longrightarrow> (\<exists>i. py_int v = Inr i)"
    by simp
  have v1: "(case ?r ''nervous'' of None \<Rightarrow> 0
             | Some v \<Rightarrow> (case py_int v of Inr i \<Rightarrow> i | Inl e \<Rightarrow> 0)) = 3"
    by simp
  have v2: "(case ?r ''worrying'' of None \<Rightarrow> 0
             | Some v \<Rightarrow> (case py_int v of Inr i \<Rightarrow> i | Inl e \<Rightarrow> 0)) = 2"
    by simp
  have v3: "(case ?r ''relaxation_difficulty'' of None \<Rightarrow> 0
             | Some v \<Rightarrow> (case py_int v of Inr i \<Rightarrow> i | Inl e \<Rightarrow> 0)) = 0"
    by simp
  have neg: "?r ''previous_ct_experience'' = Some (PStr ''negative'')"
    by simp
  note t = anxiety_score_is_sum_of_int_conversions [where db = sample_patient_db
      and commit_time = 99 and patient_id = "''p-1''" and responses = ?r]
  note ex = t [unfolded Let_def, THEN conjunct2, THEN spec, THEN mp, OF conjI, OF rows conv]
  have level: "(if (7 :: int) \<le> 2 then A_NONE else if (7 :: int) \<le> 5 then A_MILD
                else if (7 :: int) \<le> 8 then A_MODERATE else A_SEVERE) = A_MODERATE"
    by simp
  have score: "(3 :: int) + 2 + 0 + (if True then 2 else 0) = 7"
    by simp
  have true: "(Some (PStr ''negative'') = Some (PStr ''negative'')) = True"
    by simp
  note ex' = ex [unfolded v1 v2 v3 neg true score level]
  from ex' obtain u where res: "assess_anxiety sample_patient_db 99 ''p-1'' ?r =
       (Inr (map_of
          [(''patient_id'', PStr ''p-1''),
           (''anxiety_level'', PStr (AnxietyLevel_value A_MODERATE)),
           (''score'', PInt 7),
           (''recommendations'', PList (map PStr (get_anxiety_recommendations A_MODERATE)))]),
        sample_patient_db\<lparr>db_patients :=
           map (\<lambda>r. if Patient_id r = ''p-1''
                     then sample_patient\<lparr>Patient_anxiety_level := A_MODERATE,
                                          Patient_updated_at := u\<rparr>
                     else r) (db_patients sample_patient_db)\<rparr>)"
    by (rule exE)
  show ?thesis
    unfolding res by (simp add: sample_patient_db_def sample_patient_def)
qed

text \<open>
  The claim as stated, with the score equal to the sum of the numeric values, fails for
  a fractional contrib: for the response 2.5 under "nervous" the sum of the numeric values
  is 2.5, which is above 2, while the operation reports the score 2 and the level none.
\<close>

theorem anxiety_score_counterexample:
  "(\<exists>summary.
       fst (assess_anxiety sample_patient_db 99 ''p-1'' [''nervous'' \<mapsto> PFloat (5 / 2)])
         = Inr summary
       \<and> summary ''score'' = Some (PInt 2)
       \<and> summary ''anxiety_level'' = Some (PStr ''none''))
   \<and> spec_anxiety_score [''nervous'' \<mapsto> PFloat (5 / 2)] = 5 / 2
   \<and> \<not> spec_anxiety_score [''nervous'' \<mapsto> PFloat (5 / 2)] \<le> 2"
proof -
  have "fst (assess_anxiety sample_patient_db 99 ''p-1'' [''nervous'' \<mapsto> PFloat (5 / 2)])
         = Inr (map_of
          [(''patient_id'', PStr ''p-1''),
           (''anxiety_level'', PStr ''none''),
           (''score'', PInt 2),
           (''recommendations'', PList (map PStr (get_anxiety_recommendations A_NONE)))])"
    by (simp add: assess_anxiety_def scalar_one_or_none_def sample_patient_db_def
        sample_patient_def add_response_def dict_get_def dict_item_def Let_def)
  moreover have "spec_anxiety_score [''nervous'' \<mapsto> PFloat (5 / 2)] = 5 / 2"
    by (simp add: spec_anxiety_score_def dict_get_def)
  ultimately show ?thesis by simp
qed

section \<open>Applying an analysis to a scan\<close>

lemma UrgencyLevel_of_value: "UrgencyLevel_of (PStr (UrgencyLevel_value u)) = Inr u"
  by (cases u) (simp_all add: UrgencyLevel_of_def)

lemma AppropriatenessScore_of_value:
  "AppropriatenessScore_of (PStr (AppropriatenessScore_value a)) = Inr a"
  by (cases a) (simp_all add: AppropriatenessScore_of_def)

lemma db_is_unbound:
  "resolve_name (update_scan_with_analysis_locals @ clinical_agent_globals) ''db''
     = Inl (NameError ''db'')"
  by (simp add: resolve_name_def update_scan_with_analysis_locals_def
      clinical_agent_globals_def)

lemma ordered_value: "ScanStatus_value st = ''ordered'' \<longleftrightarrow> st = ORDERED"
  by (cases st) simp_all

lemma flush_CTScan_analysis:
  "\<exists>t. flush_CTScan commit_time scan
          (scan\<lparr>CTScan_urgency_level := u, CTScan_appropriateness_score := a,
                CTScan_appropriateness_reason := r, CTScan_status := st\<rparr>)
       = scan\<lparr>CTScan_urgency_level := u, CTScan_appropriateness_score := a,
              CTScan_appropriateness_reason := r, CTScan_status := st,
              CTScan_updated_at := t\<rparr>"
proof (cases "scan\<lparr>CTScan_urgency_level := u, CTScan_appropriateness_score := a,
                CTScan_appropriateness_reason := r, CTScan_status := st\<rparr> = scan")
  case True
  then have "flush_CTScan commit_time scan
          (scan\<lparr>CTScan_urgency_level := u, CTScan_appropriateness_score := a,
                CTScan_appropriateness_reason := r, CTScan_status := st\<rparr>)
       = scan\<lparr>CTScan_urgency_level := u, CTScan_appropriateness_score := a,
              CTScan_appropriateness_reason := r, CTScan_status := st,
              CTScan_updated_at := CTScan_updated_at scan\<rparr>"
    by (simp add: flush_CTScan_def)
  then show ?thesis by (rule exI)
next
  case False
  then have "flush_CTScan commit_time scan
          (scan\<lparr>CTScan_urgency_level := u, CTScan_appropriateness_score := a,
                CTScan_appropriateness_reason := r, CTScan_status := st\<rparr>)
       = scan\<lparr>CTScan_urgency_level := u, CTScan_appropriateness_score := a,
              CTScan_appropriateness_reason := r, CTScan_status := st,
              CTScan_updated_at := commit_time\<rparr>"
    by (simp add: flush_CTScan_def)
  then show ?thesis by (rule exI)
qed

text \<open>
  C1.  The claim is that \<open>update_scan_with_analysis\<close>, for an existing scan, writes the
  urgency, the appropriateness and its reason, advances an ordered scan to validated,
  commits and returns a summary.  What the code does: for every existing scan and every
  analysis result carrying the three fields, it commits exactly those writes, and then
  raises \<open>NameError\<close>, because the refresh after the commit reads the name \<open>db\<close>,
  which is bound neither in the method nor in the module (the session is \<open>self.db\<close>).
  No summary is ever returned.
\<close>

theorem update_scan_with_analysis_never_returns:
  assumes rows: "filter (\<lambda>r. CTScan_id r = scan_id) (db_ct_scans db) = [scan]"
    and urgency: "analysis_result ''urgency_level'' = Some (PStr (UrgencyLevel_value u))"
    and score: "analysis_result ''appropriateness_score''
                  = Some (PStr (AppropriatenessScore_value a))"
    and reason: "analysis_result ''appropriateness_reason'' = Some (PStr r)"
  shows "\<exists>t. update_scan_with_analysis db commit_time scan_id analysis_result =
           (Inl (NameError ''db''),
            db\<lparr>db_ct_scans :=
                 map (\<lambda>row. if CTScan_id row = scan_id
                             then scan\<lparr>CTScan_urgency_level := u,
                                        CTScan_appropriateness_score := Some a,
                                        CTScan_appropriateness_reason := Some r,
                                        CTScan_status :=
                                          (if CTScan_status scan = ORDERED then VALIDATED
                                           else CTScan_status scan),
                                        CTScan_updated_at := t\<rparr>
                             else row) (db_ct_scans db)\<rparr>)"
proof -
  have id: "CTScan_id scan = scan_id"
  proof -
    from rows have "scan \<in> set (filter (\<lambda>r. CTScan_id r = scan_id) (db_ct_scans db))"
      by simp
    then show ?thesis by simp
  qed
  obtain t where t: "flush_CTScan commit_time scan
          (scan\<lparr>CTScan_urgency_level := u, CTScan_appropriateness_score := Some a,
                CTScan_appropriateness_reason := Some r,
                CTScan_status := (if CTScan_status scan = ORDERED then VALIDATED
                                  else CTScan_status scan)\<rparr>)
       = scan\<lparr>CTScan_urgency_level := u, CTScan_appropriateness_score := Some a,
              CTScan_appropriateness_reason := Some r,
              CTScan_status := (if CTScan_status scan = ORDERED then VALIDATED
                                else CTScan_status scan),
              CTScan_updated_at := t\<rparr>"
    using flush_CTScan_analysis by blast
  have "update_scan_with_analysis db commit_time scan_id analysis_result =
           (Inl (NameError ''db''),
            db\<lparr>db_ct_scans :=
                 map (\<lambda>row. if CTScan_id row = scan_id
                             then scan\<lparr>CTScan_urgency_level := u,
                                        CTScan_appropriateness_score := Some a,
                                        CTScan_appropriateness_reason := Some r,
                                        CTScan_status :=
                                          (if CTScan_status scan = ORDERED then VALIDATED
                                           else CTScan_status scan),
                                        CTScan_updated_at := t\<rparr>
                             else row) (db_ct_scans db)\<rparr>)"
    by (simp only: update_scan_with_analysis_def rows scalar_one_or_none_def list.case
        sum.case option.case dict_item_def urgency score reason UrgencyLevel_of_value
        AppropriatenessScore_of_value text_column.simps Let_def ordered_value
        db_is_unbound commit_CTScan_def id t)
  then show ?thesis by (rule exI)
qed

theorem update_scan_with_analysis_never_returns_witness:
  "fst (update_scan_with_analysis sample_db 99 ''scan-1''
          (analyze_ct_indication ''acute stroke symptoms, sudden weakness'' None None))
     = Inl (NameError ''db'')
   \<and> map CTScan_status
        (db_ct_scans (snd (update_scan_with_analysis sample_db 99 ''scan-1''
          (analyze_ct_indication ''acute stroke symptoms, sudden weakness'' None None))))
     = [VALIDATED]
   \<and> map CTScan_urgency_level
        (db_ct_scans (snd (update_scan_with_analysis sample_db 99 ''scan-1''
          (analyze_ct_indication ''acute stroke symptoms, sudden weakness'' None None))))
     = [IMMEDIATE]"
proof -
  let ?a = "analyze_ct_indication ''acute stroke symptoms, sudden weakness'' None None"
  have rows: "filter (\<lambda>r. CTScan_id r = ''scan-1'') (db_ct_scans sample_db) = [sample_scan]"
    by (simp add: sample_db_def sample_scan_def)
  have urgency: "?a ''urgency_level'' = Some (PStr (UrgencyLevel_value IMMEDIATE))"
    by code_simp
  have score: "?a ''appropriateness_score''
                 = Some (PStr (AppropriatenessScore_value VERY_HIGH))"
    by code_simp
  have reason: "?a ''appropriateness_reason''
                 = Some (PStr ''Score: 9/9 - Matched criteria: acute stroke symptoms'')"
    by code_simp
  from update_scan_with_analysis_never_returns [OF rows urgency score reason, of 99]
  obtain t where res: "update_scan_with_analysis sample_db 99 ''scan-1'' ?a =
           (Inl (NameError ''db''),
            sample_db\<lparr>db_ct_scans :=
                 map (\<lambda>row. if CTScan_id row = ''scan-1''
                             then sample_scan\<lparr>CTScan_urgency_level := IMMEDIATE,
                                        CTScan_appropriateness_score := Some VERY_HIGH,
                                        CTScan_appropriateness_reason :=
                                          Some ''Score: 9/9 - Matched criteria: acute stroke symptoms'',
                                        CTScan_status :=
                                          (if CTScan_status sample_scan = ORDERED then VALIDATED
                                           else CTScan_status sample_scan),
                                        CTScan_updated_at := t\<rparr>
                             else row) (db_ct_scans sample_db)\<rparr>)"
    by (rule exE)
  show ?thesis
    unfolding res by (simp add: sample_db_def sample_scan_def)
qed

section \<open>Issuing and decoding tokens\<close>











section \<open>Integer literals\<close>

text \<open>
  \<open>int()\<close> does not drop the separators 28 to 31 that \<open>str.strip\<close> drops, and reads
  padded digits with an underscore between them.
\<close>

lemma py_int_refuses_separator_prefix:
  "py_int (PStr [CHR 0x1C, CHR ''5'']) = Inl (ValueError ''invalid literal for int()'')"
  by (simp add: py_int_str_def py_int_strip_def py_int_isspace_def py_isdigit_def)

lemma py_int_reads_padded_digits: "py_int (PStr '' 1_0 '') = Inr 10"
  by code_simp

end
